theory Spec2Isabelle
  imports Complex_Main
begin

section \<open>finetune.py: dataset assembly and model composition\<close>

text \<open>
  A shallow embedding of \<^verbatim>\<open>src/finetune.py\<close>. A Python float is read as the real
  number it denotes; the special values (NaN, the infinities) are outside the model.
  In the dataset split, where a rounded product decides an integer size, the float
  product is a parameter of the model; the network head, the softmax and the
  log-softmax are computed in exact real arithmetic. Python's unbounded integers are
  \<^typ>\<open>int\<close>.
  Exceptions are values of the type \<open>error\<close>; a function that can raise returns
  \<open>error + 'a\<close>, with \<open>Inl\<close> the exception.
\<close>

subsection \<open>Exceptions\<close>

datatype error =
    IndexError
  | ValueError string
  | UnboundLocalError string
  | TypeError
  | RuntimeError
  | KeyError string
  | FileNotFoundError

fun bind_err :: "error + 'a \<Rightarrow> ('a \<Rightarrow> error + 'b) \<Rightarrow> error + 'b" where
  "bind_err (Inl e) f = Inl e"
| "bind_err (Inr x) f = f x"

fun map_err :: "('a \<Rightarrow> error + 'b) \<Rightarrow> 'a list \<Rightarrow> error + 'b list" where
  "map_err f [] = Inr []"
| "map_err f (x # xs) =
     (case f x of
        Inl e \<Rightarrow> Inl e
      | Inr y \<Rightarrow> (case map_err f xs of Inl e \<Rightarrow> Inl e | Inr ys \<Rightarrow> Inr (y # ys)))"

subsection \<open>The dataset split of the main script (lines 208--216)\<close>

text \<open>
  \<^verbatim>\<open>int(x)\<close> on a float truncates toward zero.
\<close>

definition py_int :: "real \<Rightarrow> int" where
  "py_int x = (if x < 0 then \<lceil>x\<rceil> else \<lfloor>x\<rfloor>)"

text \<open>
  \<^verbatim>\<open>
  lengths = [int(args.val_ratio*len(dataset)), int(args.test_ratio*len(dataset))]
  if args.train_ratio == 1:
      lengths += [len(dataset)-sum(lengths)]
  else:
      lengths += [int((len(dataset)-sum(lengths))*args.train_ratio)]
      lengths += [len(dataset)-sum(lengths)]
  \<close>
  The argument \<open>n\<close> is \<^verbatim>\<open>len(dataset)\<close>. A ratio is the value of a double.
  \<open>fmul r k\<close> is Python's product of the float \<open>r\<close> and the integer \<open>k\<close>, in
  either order: the double that the product is rounded to, which is the exact product
  only where that is a double itself. It is a parameter of the model.
\<close>

definition split_lengths ::
  "(real \<Rightarrow> int \<Rightarrow> real) \<Rightarrow> nat \<Rightarrow> real \<Rightarrow> real \<Rightarrow> real \<Rightarrow> int list" where
  "split_lengths fmul n val_ratio test_ratio train_ratio =
     (let lengths = [py_int (fmul val_ratio (int n)), py_int (fmul test_ratio (int n))]
      in if train_ratio = 1 then lengths @ [int n - sum_list lengths]
         else
           (let lengths = lengths @ [py_int (fmul train_ratio (int n - sum_list lengths))]
            in lengths @ [int n - sum_list lengths]))"

text \<open>\<^verbatim>\<open>xs[start:stop]\<close> on a Python list: negative bounds count from the end, and
  both are clipped to the list.\<close>

definition slice_bound :: "nat \<Rightarrow> int \<Rightarrow> nat" where
  "slice_bound len i = (if i < 0 then nat (int len + i) else min (nat i) len)"

definition py_slice :: "'a list \<Rightarrow> int \<Rightarrow> int \<Rightarrow> 'a list" where
  "py_slice xs start stop =
     take (slice_bound (length xs) stop - slice_bound (length xs) start)
       (drop (slice_bound (length xs) start) xs)"

text \<open>\<^verbatim>\<open>itertools.accumulate\<close>: the running sums, here started from \<open>acc\<close>.\<close>

fun accumulate :: "int \<Rightarrow> int list \<Rightarrow> int list" where
  "accumulate acc [] = []"
| "accumulate acc (x # xs) = (acc + x) # accumulate (acc + x) xs"

text \<open>
  \<^verbatim>\<open>torch.utils.data.random_split(dataset, lengths)\<close> is torch's:
  \<^verbatim>\<open>
  if math.isclose(sum(lengths), 1) and sum(lengths) <= 1:      # torch 1.13 and later
      subset_lengths = []
      for i, frac in enumerate(lengths):
          if frac < 0 or frac > 1:
              raise ValueError(f"Fraction at index {i} is not between 0 and 1")
          subset_lengths.append(int(math.floor(len(dataset) * frac)))
      remainder = len(dataset) - sum(subset_lengths)
      for i in range(remainder):
          subset_lengths[i % len(subset_lengths)] += 1
      lengths = subset_lengths
  if sum(lengths) != len(dataset):
      raise ValueError("Sum of input lengths does not equal the length of the input dataset!")
  indices = randperm(sum(lengths)).tolist()
  return [Subset(dataset, indices[offset - length : offset])
          for offset, length in zip(_accumulate(lengths), lengths)]
  \<close>
  The lengths of the script are integers. \<open>fractions\<close> tells whether the installed
  torch has the first block; \<open>randperm\<close> draws the permutation; a subset is the list
  of its indices.
\<close>

definition add_remainder :: "int \<Rightarrow> int list \<Rightarrow> int list" where
  "add_remainder remainder subset_lengths =
     fold (\<lambda>i ls. ls[i mod length ls := ls ! (i mod length ls) + 1])
       [0..<nat remainder] subset_lengths"

definition random_split ::
  "bool \<Rightarrow> (nat \<Rightarrow> nat list) \<Rightarrow> nat \<Rightarrow> int list \<Rightarrow> error + nat list list" where
  "random_split fractions randperm n lengths =
     bind_err
       (if fractions \<and> sum_list lengths = 1
        then (if list_ex (\<lambda>frac. frac < 0 \<or> 1 < frac) lengths
              then Inl (ValueError ''Fraction is not between 0 and 1'')
              else (let subset_lengths = map (\<lambda>frac. int n * frac) lengths
                    in Inr (add_remainder (int n - sum_list subset_lengths) subset_lengths)))
        else Inr lengths)
       (\<lambda>lengths.
          if sum_list lengths \<noteq> int n
          then Inl (ValueError
                 ''Sum of input lengths does not equal the length of the input dataset!'')
          else (let indices = randperm (nat (sum_list lengths))
                in Inr (map (\<lambda>(offset, length). py_slice indices (offset - length) offset)
                          (zip (accumulate 0 lengths) lengths))))"

text \<open>
  \<^verbatim>\<open>
  if args.train_ratio == 1:
      ...
      val_dataset, test_dataset, train_dataset = random_split(dataset, lengths)
  else:
      ...
      val_dataset, test_dataset, train_dataset, _ = random_split(dataset, lengths)
  \<close>
  The result is the three subsets that the script goes on with.
\<close>

definition dataset_split ::
  "bool \<Rightarrow> (nat \<Rightarrow> nat list) \<Rightarrow> (real \<Rightarrow> int \<Rightarrow> real) \<Rightarrow> nat \<Rightarrow> real \<Rightarrow> real \<Rightarrow> real \<Rightarrow>
     error + (nat list \<times> nat list \<times> nat list)" where
  "dataset_split fractions randperm fmul n val_ratio test_ratio train_ratio =
     bind_err
       (random_split fractions randperm n (split_lengths fmul n val_ratio test_ratio train_ratio))
       (\<lambda>subsets.
          if train_ratio = 1
          then (case subsets of
                  [val_dataset, test_dataset, train_dataset] \<Rightarrow>
                    Inr (val_dataset, test_dataset, train_dataset)
                | _ \<Rightarrow> Inl (ValueError ''wrong number of values to unpack''))
          else (case subsets of
                  [val_dataset, test_dataset, train_dataset, _] \<Rightarrow>
                    Inr (val_dataset, test_dataset, train_dataset)
                | _ \<Rightarrow> Inl (ValueError ''wrong number of values to unpack'')))"

subsection \<open>numpy arrays, \<^verbatim>\<open>resize_image\<close> and \<^verbatim>\<open>customToTensor\<close> (lines 126--138)\<close>

text \<open>
  The data of a numeric numpy array: its shape, its dtype (a native floating-point
  one) and its elements in row-major order.
\<close>

datatype dtype = Float32 | Float64

record ndarray =
  shape :: "nat list"
  dtype :: dtype
  items :: "real list"

text \<open>
  The Python objects that reach \<^verbatim>\<open>customToTensor\<close>. \<open>Ndarray\<close> is an object whose
  type is \<^verbatim>\<open>numpy.ndarray\<close> itself and whose strides are not negative, as
  \<^verbatim>\<open>get_fdata()\<close> returns; \<open>NegStrideNdarray\<close> is such an object with a negative
  stride, a reversed view like \<^verbatim>\<open>a[::-1]\<close> (\<open>items\<close> in the order of the view);
  \<open>MaskedArray\<close> is an instance of the subclass \<^verbatim>\<open>numpy.ma.MaskedArray\<close>. A
  tensor, \<^verbatim>\<open>None\<close> and any other object are no arrays. Arrays of other dtypes are
  not represented.
\<close>

datatype pyobj =
    Ndarray ndarray
  | NegStrideNdarray ndarray
  | MaskedArray ndarray
  | Tensor "nat list" "real list"
  | PyNone
  | PyObject string

text \<open>
  An instance of \<^verbatim>\<open>numpy.ndarray\<close> as the numpy and torch functions see it: what
  kind of array object it is, and its data. \<open>as_ndarray\<close> is the test
  \<^verbatim>\<open>isinstance(img, np.ndarray)\<close>, which a subclass passes.
\<close>

datatype array_kind = ExactNdarray | NegativeStride | Masked

datatype np_instance = NpArray array_kind ndarray

fun as_ndarray :: "pyobj \<Rightarrow> np_instance option" where
  "as_ndarray (Ndarray a) = Some (NpArray ExactNdarray a)"
| "as_ndarray (NegStrideNdarray a) = Some (NpArray NegativeStride a)"
| "as_ndarray (MaskedArray a) = Some (NpArray Masked a)"
| "as_ndarray (Tensor s v) = None"
| "as_ndarray PyNone = None"
| "as_ndarray (PyObject name) = None"

text \<open>
  \<^verbatim>\<open>numpy.resize(a, new_shape)\<close> is numpy's: it flattens \<open>a\<close>, zero-fills when
  \<open>a\<close> or the new shape is empty, and otherwise concatenates
  \<open>repeats = -(-new_size // a.size)\<close> copies of the flattened data, cuts the result
  at \<open>new_size\<close> elements and reshapes it. The result is a new array without negative
  strides; for a masked array it is a masked array again.
\<close>

definition resize_data :: "ndarray \<Rightarrow> nat list \<Rightarrow> ndarray" where
  "resize_data a new_shape =
     (let new_size = prod_list new_shape;
          a_size = length (items a)
      in if a_size = 0 \<or> new_size = 0
         then \<lparr>shape = new_shape, dtype = dtype a, items = replicate new_size 0\<rparr>
         else
           (let repeats = (new_size + a_size - 1) div a_size
            in \<lparr>shape = new_shape, dtype = dtype a,
                 items = take new_size (concat (replicate repeats (items a)))\<rparr>))"

fun np_resize :: "np_instance \<Rightarrow> nat list \<Rightarrow> np_instance" where
  "np_resize (NpArray ExactNdarray a) new_shape = NpArray ExactNdarray (resize_data a new_shape)"
| "np_resize (NpArray NegativeStride a) new_shape = NpArray ExactNdarray (resize_data a new_shape)"
| "np_resize (NpArray Masked a) new_shape = NpArray Masked (resize_data a new_shape)"

text \<open>
  \<^verbatim>\<open>
  def resize_image(img_array, trg_size):
      res = np.resize(img_array, trg_size)
      if type(res) != np.ndarray:
          raise "type error!"
      return res
  \<close>
  \<open>img_array\<close> is an array instance, as at the one call of the function. Raising a
  string is itself a \<^verbatim>\<open>TypeError\<close> in Python 3.
\<close>

definition resize_image :: "np_instance \<Rightarrow> nat list \<Rightarrow> error + ndarray" where
  "resize_image img_array trg_size =
     (case np_resize img_array trg_size of
        NpArray Masked res \<Rightarrow> Inl TypeError
      | NpArray kind res \<Rightarrow> Inr res)"

text \<open>
  \<^verbatim>\<open>torch.from_numpy\<close> is torch's: a tensor over the same data, and a
  \<^verbatim>\<open>ValueError\<close> for an array with a negative stride.
  \<^verbatim>\<open>a.astype(np.float32)\<close> converts every element, \<open>f32\<close> being the rounding
  of a value to single precision.
\<close>

fun from_numpy :: "np_instance \<Rightarrow> error + pyobj" where
  "from_numpy (NpArray NegativeStride a) =
     Inl (ValueError ''At least one stride in the given numpy array is negative'')"
| "from_numpy (NpArray kind a) = Inr (Tensor (shape a) (items a))"

definition astype :: "(real \<Rightarrow> real) \<Rightarrow> dtype \<Rightarrow> ndarray \<Rightarrow> ndarray" where
  "astype cast dt a = \<lparr>shape = shape a, dtype = dt, items = map cast (items a)\<rparr>"

text \<open>
  \<^verbatim>\<open>
  def customToTensor(img):
      if isinstance(img, np.ndarray):
          img1 = torch.from_numpy(img)
          img1 = resize_image(img, (150, 150, 200))
          return img1.astype(np.float32)
  \<close>
  A function that ends without \<^verbatim>\<open>return\<close> returns \<^verbatim>\<open>None\<close>.
\<close>

definition customToTensor :: "(real \<Rightarrow> real) \<Rightarrow> pyobj \<Rightarrow> error + pyobj" where
  "customToTensor f32 img =
     (case as_ndarray img of
        Some arr \<Rightarrow>
          bind_err (from_numpy arr) (\<lambda>img1.
          bind_err (resize_image arr [150, 150, 200]) (\<lambda>img1.
          Inr (Ndarray (astype f32 Float32 img1))))
      | None \<Rightarrow> Inr PyNone)"

subsection \<open>\<^verbatim>\<open>ADNIDataset\<close> (lines 140--174)\<close>

text \<open>\<^verbatim>\<open>xs[i]\<close> on a Python list: a negative index counts from the end.\<close>

definition py_index :: "'a list \<Rightarrow> int \<Rightarrow> error + 'a" where
  "py_index xs i =
     (if 0 \<le> i \<and> i < int (length xs) then Inr (xs ! nat i)
      else if i < 0 \<and> - int (length xs) \<le> i then Inr (xs ! nat (int (length xs) + i))
      else Inl IndexError)"

text \<open>\<^verbatim>\<open>s.split(',')\<close> and \<^verbatim>\<open>s.strip('"')\<close>.\<close>

fun split_on :: "char \<Rightarrow> string \<Rightarrow> string list" where
  "split_on c [] = [[]]"
| "split_on c (x # xs) =
     (if x = c then [] # split_on c xs
      else (case split_on c xs of
              [] \<Rightarrow> [[x]]
            | w # ws \<Rightarrow> (x # w) # ws))"

definition strip :: "char \<Rightarrow> string \<Rightarrow> string" where
  "strip c s = rev (dropWhile (\<lambda>x. x = c) (rev (dropWhile (\<lambda>x. x = c) s)))"

text \<open>\<^verbatim>\<open>os.path.join(a, b)\<close> on a POSIX system, for two components.\<close>

definition os_path_join :: "string \<Rightarrow> string \<Rightarrow> string" where
  "os_path_join a b =
     (if b \<noteq> [] \<and> hd b = CHR ''/'' then b
      else if a = [] \<or> last a = CHR ''/'' then a @ b
      else a @ ''/'' @ b)"

record ADNIDataset =
  root_dir :: string
  lines :: "string list list"
  ds_classification :: int
  label_file_idx :: int

text \<open>
  \<^verbatim>\<open>
  self.lines = [x.split(',') for x in open(data_file).readlines()][1:]
  self.label_file_idx = 2 if classification else 4
  \<close>
  \<open>file_lines\<close> is what \<^verbatim>\<open>readlines()\<close> returned. The flag comes from
  \<^verbatim>\<open>--classification\<close>, an integer; it is true when it is not zero.
\<close>

definition ADNIDataset_init :: "string \<Rightarrow> string list \<Rightarrow> int \<Rightarrow> ADNIDataset" where
  "ADNIDataset_init rd file_lines cls =
     \<lparr>root_dir = rd,
      lines = drop 1 (map (split_on CHR '','') file_lines),
      ds_classification = cls,
      label_file_idx = (if cls \<noteq> 0 then 2 else 4)\<rparr>"

definition len :: "ADNIDataset \<Rightarrow> nat" where
  "len self = length (lines self)"

datatype label = ClassLabel int | ScoreLabel real

text \<open>
  Lines 158--168 of \<^verbatim>\<open>__getitem__\<close>: the value of the local variable
  \<^verbatim>\<open>label\<close> after the branch, \<open>None\<close> when no assignment was reached.
  \<open>py_float\<close> is Python's \<^verbatim>\<open>float\<close> on a string, \<open>None\<close> where it raises
  \<^verbatim>\<open>ValueError\<close>.
\<close>

definition getitem_label ::
  "(string \<Rightarrow> real option) \<Rightarrow> ADNIDataset \<Rightarrow> string list \<Rightarrow> error + label option" where
  "getitem_label py_float self lst =
     (if ds_classification self \<noteq> 0 then
        bind_err (py_index lst (label_file_idx self)) (\<lambda>raw.
          let img_label = strip CHR 0x22 raw
          in if img_label = ''AD'' then Inr (Some (ClassLabel 1))
             else if img_label = ''CN'' then Inr (Some (ClassLabel 0))
             else if img_label = ''MCI'' then Inr (Some (ClassLabel 2))
             else Inr None)
      else
        bind_err (py_index lst (label_file_idx self)) (\<lambda>raw.
          case py_float (strip CHR 0x22 raw) of
            None \<Rightarrow> Inl (ValueError (''could not convert string to float: '' @ strip CHR 0x22 raw))
          | Some img_label \<Rightarrow> Inr (Some (ScoreLabel img_label))))"

text \<open>
  \<^verbatim>\<open>
  def __getitem__(self, idx):
      lst = self.lines[idx]
      img_name = lst[0].strip('\"')
      ...
      image_path = f'{os.path.join(self.root_dir, img_name)}.nii'
      image = nib.load(image_path)
      a = (image.get_fdata())
      a = customToTensor(a)
      return a, label
  \<close>
  \<open>nib_load\<close> stands for \<^verbatim>\<open>nib.load(path).get_fdata()\<close>, the decoder of the image
  files. Reading \<^verbatim>\<open>label\<close> in the last line raises \<^verbatim>\<open>UnboundLocalError\<close>
  when no branch assigned it.
\<close>

definition getitem ::
  "(string \<Rightarrow> real option) \<Rightarrow> (string \<Rightarrow> error + ndarray) \<Rightarrow> (real \<Rightarrow> real) \<Rightarrow>
     ADNIDataset \<Rightarrow> int \<Rightarrow> error + (pyobj \<times> label)" where
  "getitem py_float nib_load f32 self idx =
     bind_err (py_index (lines self) idx) (\<lambda>lst.
     bind_err (py_index lst 0) (\<lambda>name.
     let img_name = strip CHR 0x22 name
     in bind_err (getitem_label py_float self lst) (\<lambda>label.
        let image_path = os_path_join (root_dir self) img_name @ ''.nii''
        in bind_err (nib_load image_path) (\<lambda>a.
           bind_err (customToTensor f32 (Ndarray a)) (\<lambda>a.
           case label of
             None \<Rightarrow> Inl (UnboundLocalError ''label'')
           | Some l \<Rightarrow> Inr (a, l))))))"

subsection \<open>Modules and their parameters\<close>

text \<open>
  A tensor is its shape and its values in row-major order. A parameter is a tensor
  with the flag \<^verbatim>\<open>requires_grad\<close>. Of a module of torch the model keeps the named
  parameters and the training flag that \<^verbatim>\<open>eval()\<close> clears.
\<close>

record tensor =
  tshape :: "nat list"
  tvalues :: "real list"

record param =
  data :: tensor
  requires_grad :: bool

record module =
  named_parameters :: "(string \<times> param) list"
  training :: bool

type_synonym state_dict = "(string \<times> tensor) list"

text \<open>
  \<^verbatim>\<open>module.load_state_dict(state)\<close> is torch's (strict): the keys of the state
  must be those of the module and every tensor must have the shape of the parameter
  it replaces, or it raises \<^verbatim>\<open>RuntimeError\<close>; it copies the values into the
  parameters and leaves \<^verbatim>\<open>requires_grad\<close> alone.
\<close>

definition load_state_dict :: "module \<Rightarrow> state_dict \<Rightarrow> error + module" where
  "load_state_dict m state =
     (if set (map fst state) \<noteq> set (map fst (named_parameters m))
         \<or> list_ex (\<lambda>(k, p). case map_of state k of
                               None \<Rightarrow> True
                             | Some t \<Rightarrow> tshape t \<noteq> tshape (data p)) (named_parameters m)
      then Inl RuntimeError
      else Inr (m\<lparr>named_parameters :=
                   map (\<lambda>(k, p). (k, case map_of state k of
                                        None \<Rightarrow> p
                                      | Some t \<Rightarrow> p\<lparr>data := t\<rparr>)) (named_parameters m)\<rparr>))"

text \<open>
  Lines 29--31 and 40--42:
  \<^verbatim>\<open>
  for p in m.parameters():
      p.requires_grad = False
  m.eval()
  \<close>
\<close>

definition disable_gradient :: "module \<Rightarrow> module" where
  "disable_gradient m =
     m\<lparr>named_parameters := map (\<lambda>(k, p). (k, p\<lparr>requires_grad := False\<rparr>)) (named_parameters m),
       training := False\<rparr>"

subsection \<open>The layers of \<^verbatim>\<open>self.mlps\<close>\<close>

datatype layer = Linear param param | ReLU | Sigmoid

text \<open>
  \<^verbatim>\<open>nn.Linear(in_features, out_features)\<close>: a weight of shape
  \<open>[out_features, in_features]\<close> and a bias of shape \<open>[out_features]\<close>, both
  trainable, with initial values drawn by \<open>rand\<close>.
\<close>

definition new_Linear :: "(nat \<Rightarrow> real) \<Rightarrow> (nat \<Rightarrow> real) \<Rightarrow> nat \<Rightarrow> nat \<Rightarrow> layer" where
  "new_Linear rand_w rand_b in_features out_features =
     Linear
       \<lparr>data = \<lparr>tshape = [out_features, in_features],
                tvalues = map rand_w [0..<out_features * in_features]\<rparr>,
        requires_grad = True\<rparr>
       \<lparr>data = \<lparr>tshape = [out_features], tvalues = map rand_b [0..<out_features]\<rparr>,
        requires_grad = True\<rparr>"

definition dot :: "real list \<Rightarrow> real list \<Rightarrow> real" where
  "dot xs ys = sum_list (map2 (*) xs ys)"

definition sigmoid :: "real \<Rightarrow> real" where
  "sigmoid x = 1 / (1 + exp (- x))"

text \<open>
  One layer on one sample. A linear layer raises \<^verbatim>\<open>RuntimeError\<close> when the
  sample does not have \<open>in_features\<close> entries.
\<close>

fun layer_forward :: "layer \<Rightarrow> real list \<Rightarrow> error + real list" where
  "layer_forward (Linear w b) x =
     (case tshape (data w) of
        [out_features, in_features] \<Rightarrow>
          if length x \<noteq> in_features
             \<or> length (tvalues (data w)) \<noteq> out_features * in_features
             \<or> length (tvalues (data b)) \<noteq> out_features
          then Inl RuntimeError
          else Inr (map (\<lambda>i. dot (take in_features (drop (i * in_features) (tvalues (data w)))) x
                              + tvalues (data b) ! i) [0..<out_features])
      | _ \<Rightarrow> Inl RuntimeError)"
| "layer_forward ReLU x = Inr (map (max 0) x)"
| "layer_forward Sigmoid x = Inr (map sigmoid x)"

fun Sequential :: "layer list \<Rightarrow> real list \<Rightarrow> error + real list" where
  "Sequential [] x = Inr x"
| "Sequential (l # ls) x = bind_err (layer_forward l x) (Sequential ls)"

fun layer_parameters :: "layer \<Rightarrow> param list" where
  "layer_parameters (Linear w b) = [w, b]"
| "layer_parameters ReLU = []"
| "layer_parameters Sigmoid = []"

subsection \<open>\<^verbatim>\<open>FinetuneModel\<close> (lines 20--124)\<close>

text \<open>The options of the argument parser that the model reads.\<close>

record hparams =
  lr :: real
  finetune_cnn :: int
  finetune_transformer :: int
  classification :: int
  n_hidden :: nat

datatype metric = AUROC nat | MeanAbsoluteError

datatype loss_fn = nll_loss | smooth_l1_loss

record FinetuneModel =
  hparams :: hparams
  transformer :: module
  cnn_models :: "module list"
  train_metric :: metric
  test_metric :: metric
  val_metric :: metric
  loss :: loss_fn
  mlps :: "layer list"

text \<open>
  \<^verbatim>\<open>__init__\<close>. \<open>MultiViewTransformer\<close> and \<open>cnn_multi_dim\<close> are the constructors
  of the two pretrained networks (\<^verbatim>\<open>transformer.py\<close>, \<^verbatim>\<open>CNN.py\<close>);
  \<open>transformer_checkpoint\<close> and \<open>loaded\<close> are what \<^verbatim>\<open>torch.load\<close> returned for
  the two checkpoint paths; \<open>rand\<close> draws the initial values of the new linear
  layers.
\<close>

definition FinetuneModel_init ::
  "(hparams \<Rightarrow> module) \<Rightarrow> (nat \<Rightarrow> nat \<Rightarrow> module) \<Rightarrow> state_dict \<Rightarrow> state_dict list \<Rightarrow>
     (nat \<Rightarrow> nat \<Rightarrow> real) \<Rightarrow> hparams \<Rightarrow> error + FinetuneModel" where
  "FinetuneModel_init MultiViewTransformer cnn_multi_dim transformer_checkpoint loaded rand args =
     bind_err (load_state_dict (MultiViewTransformer args) transformer_checkpoint) (\<lambda>tr.
     let tr = (if finetune_transformer args = 0 then disable_gradient tr else tr);
         in_size = n_hidden args
     in bind_err
          (map_err (\<lambda>(model_idx, model).
                      bind_err (py_index loaded (int model_idx)) (load_state_dict model))
             (enumerate 0 (map (\<lambda>i. cnn_multi_dim i in_size) [0..<3])))
          (\<lambda>cnns.
     let cnns = (if finetune_cnn args = 0 then map disable_gradient cnns else cnns);
         mlps0 = [new_Linear (rand 0) (rand 1) in_size in_size, ReLU]
     in if classification args \<noteq> 0
        then Inr \<lparr>hparams = args, transformer = tr, cnn_models = cnns,
                  train_metric = AUROC 3, test_metric = AUROC 3, val_metric = AUROC 3,
                  loss = nll_loss,
                  mlps = mlps0 @ [new_Linear (rand 2) (rand 3) in_size 3]\<rparr>
        else Inr \<lparr>hparams = args, transformer = tr, cnn_models = cnns,
                  train_metric = MeanAbsoluteError, test_metric = MeanAbsoluteError,
                  val_metric = MeanAbsoluteError,
                  loss = smooth_l1_loss,
                  mlps = mlps0 @ [new_Linear (rand 2) (rand 3) in_size 1, Sigmoid]\<rparr>))"

text \<open>
  \<^verbatim>\<open>self.parameters()\<close>: the parameters of the sub-modules in the order they were
  assigned (the metrics have none).
\<close>

definition parameters :: "FinetuneModel \<Rightarrow> param list" where
  "parameters self =
     map snd (named_parameters (transformer self))
     @ concat (map (\<lambda>m. map snd (named_parameters m)) (cnn_models self))
     @ concat (map layer_parameters (mlps self))"

record optimizer =
  param_group :: "param list"
  opt_lr :: real

text \<open>
  \<^verbatim>\<open>
  def configure_optimizers(self):
      return torch.optim.AdamW(filter(lambda x: x.requires_grad, self.parameters()), lr=self.hparams.lr)
  \<close>
\<close>

definition configure_optimizers :: "FinetuneModel \<Rightarrow> optimizer" where
  "configure_optimizers self =
     \<lparr>param_group = filter requires_grad (parameters self), opt_lr = lr (hparams self)\<rparr>"

text \<open>
  \<^verbatim>\<open>out.flatten(1, 2).mean(1)\<close> on one sample: the rows of the flattened
  \<open>[T * 3, C]\<close> matrix are averaged column by column.
\<close>

definition mean_rows :: "real list list \<Rightarrow> real list" where
  "mean_rows rows =
     (case rows of
        [] \<Rightarrow> []
      | r # _ \<Rightarrow> map (\<lambda>j. sum_list (map (\<lambda>row. row ! j) rows) / real (length rows)) [0..<length r])"

text \<open>
  \<^verbatim>\<open>
  def forward(self, x):
      out = output_single(self.cnn_models, x).transpose(1, 2)
      out = self.transformer(out)
      out = out.flatten(1, 2).mean(1)
      out = self.mlps(out)
      if not self.hparams.classification:
          out = out*100
      return out
  \<close>
  \<open>output_single\<close> (\<^verbatim>\<open>CNN.py\<close>) and \<open>transformer_forward\<close> (the call of the
  transformer module) are the two networks; a batch is the list of its samples.
\<close>

definition forward ::
  "(module list \<Rightarrow> 'x \<Rightarrow> error + real list list list list) \<Rightarrow>
   (module \<Rightarrow> real list list list list \<Rightarrow> error + real list list list list) \<Rightarrow>
     FinetuneModel \<Rightarrow> 'x \<Rightarrow> error + real list list" where
  "forward output_single transformer_forward self x =
     bind_err (output_single (cnn_models self) x) (\<lambda>out.
     let out = map transpose out
     in bind_err (transformer_forward (transformer self) out) (\<lambda>out.
        let out = map (\<lambda>sample. mean_rows (concat sample)) out
        in bind_err (map_err (Sequential (mlps self)) out) (\<lambda>out.
           if classification (hparams self) = 0
           then Inr (map (map (\<lambda>v. v * 100)) out)
           else Inr out)))"






subsection \<open>Example inputs\<close>

text \<open>
  For the split: the exact product, which is the float product wherever it is a double
  itself, as it is for the ratios 0.25, 0.5, 0.75 and 0.375 and the record counts of
  the examples; and the identity as the permutation drawn.
\<close>

definition exact_product :: "real \<Rightarrow> int \<Rightarrow> real" where
  "exact_product r k = r * real_of_int k"

definition identity_permutation :: "nat \<Rightarrow> nat list" where
  "identity_permutation n = [0..<n]"

text \<open>
  A manifest of a header and two rows (the first with quoted fields, the second with
  a label that is no diagnostic group and a score that is no number), a decoder that
  knows the two image files, and a stand-in for \<^verbatim>\<open>float\<close> that reads the one score of
  the manifest.
\<close>

definition example_manifest :: "string list" where
  "example_manifest =
     [''Image,Subject,Group,Sex,Score,Date'',
      CHR 0x22 # ''I1'' @ [CHR 0x22] @ '','' @ CHR 0x22 # ''S1'' @ [CHR 0x22] @ '',''
        @ CHR 0x22 # ''AD'' @ [CHR 0x22] @ '',F,'' @ CHR 0x22 # ''72.3'' @ [CHR 0x22] @ '',x'',
      ''I2,S2,FOO,M,n/a,x'']"

definition example_row :: "string list" where
  "example_row =
     [CHR 0x22 # ''I1'' @ [CHR 0x22], CHR 0x22 # ''S1'' @ [CHR 0x22],
      CHR 0x22 # ''AD'' @ [CHR 0x22], ''F'', CHR 0x22 # ''72.3'' @ [CHR 0x22], ''x'']"

definition example_volume :: ndarray where
  "example_volume = \<lparr>shape = [1, 1, 3], dtype = Float64, items = [1, 2, 3]\<rparr>"

definition example_nib_load :: "string \<Rightarrow> error + ndarray" where
  "example_nib_load path =
     (if path = ''root/I1.nii'' \<or> path = ''root/I2.nii'' then Inr example_volume
      else Inl FileNotFoundError)"

definition example_float :: "string \<Rightarrow> real option" where
  "example_float s = (if s = ''72.3'' then Some (723 / 10) else None)"

text \<open>
  A model over one hidden unit: a transformer and three per-view networks of one
  trainable parameter each, checkpoints of matching shape, new linear layers with all
  weights 1, the per-view networks frozen and the transformer finetuned; stand-ins for
  the two networks that copy the input into one time step of three views.
  \<open>example_built\<close> is the model that \<^verbatim>\<open>__init__\<close> builds from them.
\<close>

definition example_tensor :: "real \<Rightarrow> tensor" where
  "example_tensor v = \<lparr>tshape = [1], tvalues = [v]\<rparr>"

definition example_module :: "string \<Rightarrow> module" where
  "example_module k =
     \<lparr>named_parameters = [(k, \<lparr>data = example_tensor 0, requires_grad = True\<rparr>)], training = True\<rparr>"

definition example_args :: "int \<Rightarrow> hparams" where
  "example_args cls =
     \<lparr>lr = 1 / 1000, finetune_cnn = 0, finetune_transformer = 1, classification = cls,
      n_hidden = 1\<rparr>"

definition example_output_single :: "module list \<Rightarrow> real \<Rightarrow> error + real list list list list" where
  "example_output_single ms x = Inr [[[[x]], [[x]], [[x]]]]"

definition example_transformer_forward ::
  "module \<Rightarrow> real list list list list \<Rightarrow> error + real list list list list" where
  "example_transformer_forward m out = Inr out"

definition example_model :: "int \<Rightarrow> error + FinetuneModel" where
  "example_model cls =
     FinetuneModel_init (\<lambda>args. example_module ''w'') (\<lambda>i n. example_module ''conv'')
       [(''w'', example_tensor 5)] [[(''conv'', example_tensor 7)], [(''conv'', example_tensor 7)], [(''conv'', example_tensor 7)]]
       (\<lambda>k i. 1) (example_args cls)"

definition example_frozen :: "string \<Rightarrow> real \<Rightarrow> module" where
  "example_frozen k v =
     \<lparr>named_parameters = [(k, \<lparr>data = example_tensor v, requires_grad = False\<rparr>)], training = False\<rparr>"

definition example_built :: "int \<Rightarrow> FinetuneModel" where
  "example_built cls =
     (if cls \<noteq> 0
      then \<lparr>hparams = example_args cls,
            transformer = \<lparr>named_parameters = [(''w'', \<lparr>data = example_tensor 5, requires_grad = True\<rparr>)], training = True\<rparr>,
            cnn_models = [example_frozen ''conv'' 7, example_frozen ''conv'' 7, example_frozen ''conv'' 7],
            train_metric = AUROC 3, test_metric = AUROC 3, val_metric = AUROC 3,
            loss = nll_loss,
            mlps = [new_Linear (\<lambda>i. 1) (\<lambda>i. 1) 1 1, ReLU, new_Linear (\<lambda>i. 1) (\<lambda>i. 1) 1 3]\<rparr>
      else \<lparr>hparams = example_args cls,
            transformer = \<lparr>named_parameters = [(''w'', \<lparr>data = example_tensor 5, requires_grad = True\<rparr>)], training = True\<rparr>,
            cnn_models = [example_frozen ''conv'' 7, example_frozen ''conv'' 7, example_frozen ''conv'' 7],
            train_metric = MeanAbsoluteError, test_metric = MeanAbsoluteError, val_metric = MeanAbsoluteError,
            loss = smooth_l1_loss,
            mlps = [new_Linear (\<lambda>i. 1) (\<lambda>i. 1) 1 1, ReLU, new_Linear (\<lambda>i. 1) (\<lambda>i. 1) 1 1, Sigmoid]\<rparr>)"

section \<open>Properties\<close>

subsection \<open>Truncation\<close>

lemma py_int_nonneg: "0 \<le> x \<Longrightarrow> py_int x = \<lfloor>x\<rfloor>"
  by (simp add: py_int_def)

lemma py_int_neg: "x \<le> 0 \<Longrightarrow> py_int x = \<lceil>x\<rceil>"
  by (cases "x = 0") (simp_all add: py_int_def)

lemma py_int_abs: "\<bar>py_int x\<bar> = \<lfloor>\<bar>x\<bar>\<rfloor>"
proof (cases "x < 0")
  case True
  then have "\<lceil>x\<rceil> \<le> 0" by (simp add: ceiling_le_zero)
  moreover have "\<lfloor>- x\<rfloor> = - \<lceil>x\<rceil>" by (simp add: ceiling_def)
  ultimately show ?thesis using True by (simp add: py_int_def)
next
  case False
  then show ?thesis by (simp add: py_int_def)
qed

subsection \<open>The split sizes\<close>

lemma sum_split_lengths: "sum_list (split_lengths fmul n vr ter trr) = int n"
  by (simp add: split_lengths_def Let_def)

lemma split_lengths_one:
  "split_lengths fmul n vr ter 1 =
     [py_int (fmul vr (int n)), py_int (fmul ter (int n)),
      int n - py_int (fmul vr (int n)) - py_int (fmul ter (int n))]"
  by (simp add: split_lengths_def diff_diff_eq)

lemma split_lengths_other:
  assumes "trr \<noteq> 1"
  shows "split_lengths fmul n vr ter trr =
     [py_int (fmul vr (int n)), py_int (fmul ter (int n)),
      py_int (fmul trr (int n - py_int (fmul vr (int n)) - py_int (fmul ter (int n)))),
      int n - py_int (fmul vr (int n)) - py_int (fmul ter (int n))
        - py_int (fmul trr (int n - py_int (fmul vr (int n)) - py_int (fmul ter (int n))))]"
proof -
  have e: "int n - (py_int (fmul vr (int n)) + py_int (fmul ter (int n)))
             = int n - py_int (fmul vr (int n)) - py_int (fmul ter (int n))"
    by simp
  show ?thesis
    using assms unfolding split_lengths_def Let_def
    by (simp only: if_False sum_list.Cons sum_list.Nil append.simps add_0_right e
        sum_list_append) simp
qed

text \<open>
  C2 (as amended). With \<^verbatim>\<open>train_ratio == 1\<close> and float products
  \<open>val_ratio * n\<close> and \<open>test_ratio * n\<close> that are not negative (as the products of
  non-negative ratios are), the split computes \<open>val_size\<close> and \<open>test_size\<close> as the
  floors of those float products and \<open>train_size = n - val_size - test_size\<close>; the
  three sizes sum to \<open>n\<close>, the first two are non-negative, and all three are
  non-negative exactly when \<open>val_size + test_size \<le> n\<close>, which the code does not check.
\<close>

theorem split_train_ratio_one:
  assumes "0 \<le> fmul val_ratio (int n)" "0 \<le> fmul test_ratio (int n)"
  shows "split_lengths fmul n val_ratio test_ratio 1 =
           [\<lfloor>fmul val_ratio (int n)\<rfloor>, \<lfloor>fmul test_ratio (int n)\<rfloor>,
            int n - \<lfloor>fmul val_ratio (int n)\<rfloor> - \<lfloor>fmul test_ratio (int n)\<rfloor>]
         \<and> sum_list (split_lengths fmul n val_ratio test_ratio 1) = int n
         \<and> 0 \<le> \<lfloor>fmul val_ratio (int n)\<rfloor> \<and> 0 \<le> \<lfloor>fmul test_ratio (int n)\<rfloor>
         \<and> (list_all (\<lambda>size. 0 \<le> size) (split_lengths fmul n val_ratio test_ratio 1)
              \<longleftrightarrow> \<lfloor>fmul val_ratio (int n)\<rfloor> + \<lfloor>fmul test_ratio (int n)\<rfloor> \<le> int n)"
proof -
  let ?v = "\<lfloor>fmul val_ratio (int n)\<rfloor>" and ?t = "\<lfloor>fmul test_ratio (int n)\<rfloor>"
  have eq: "split_lengths fmul n val_ratio test_ratio 1 = [?v, ?t, int n - ?v - ?t]"
    by (simp only: split_lengths_one py_int_nonneg [OF assms(1)] py_int_nonneg [OF assms(2)])
  have v: "0 \<le> ?v" and t: "0 \<le> ?t"
    using assms by simp_all
  have "list_all (\<lambda>size. 0 \<le> size) [?v, ?t, int n - ?v - ?t] \<longleftrightarrow> ?v + ?t \<le> int n"
    using v t by auto
  with eq v t sum_split_lengths [of fmul n val_ratio test_ratio 1] show ?thesis
    by simp
qed

text \<open>Eight records with ratios 0.25, 0.25 and 1 give the sizes 2, 2 and 4.\<close>

theorem split_train_ratio_one_witness:
  "0 \<le> exact_product (1 / 4) (int 8)
   \<and> split_lengths exact_product 8 (1 / 4) (1 / 4) 1 = [2, 2, 4]
   \<and> sum_list (split_lengths exact_product 8 (1 / 4) (1 / 4) 1) = 8"
proof -
  have p: "exact_product (1 / 4) (int 8) = 2" by (simp add: exact_product_def)
  have h: "0 \<le> exact_product (1 / 4) (int 8)" unfolding p by simp
  from split_train_ratio_one [where fmul = exact_product and val_ratio = "1 / 4"
      and test_ratio = "1 / 4" and n = 8, OF h h]
  show ?thesis unfolding p by simp
qed

text \<open>
  C2 as stated fails: eight records with validation and test ratios 0.75, both inside
  \<open>(0, 1]\<close>, give the sizes 6, 6 and -4; the train size is negative. (The float
  product \<open>0.75 * 8\<close> is exactly 6.)
\<close>

theorem split_train_ratio_one_counterexample:
  "exact_product (3 / 4) (int 8) = 6
   \<and> split_lengths exact_product 8 (3 / 4) (3 / 4) 1 = [6, 6, - 4]
   \<and> split_lengths exact_product 8 (3 / 4) (3 / 4) 1 ! 2 < 0"
  by (simp add: split_lengths_def py_int_def exact_product_def)

text \<open>
  C3 (as amended). With \<^verbatim>\<open>train_ratio < 1\<close> the split computes
  \<open>remaining = n - val_size - test_size\<close>, \<open>train_size\<close> as the float product
  \<open>remaining * train_ratio\<close> truncated toward zero (its floor when the product is not
  negative, its ceiling when it is, so that \<open>\<bar>train_size\<bar> = \<lfloor>\<bar>product\<bar>\<rfloor>\<close>) and
  \<open>discard_size = remaining - train_size\<close>; the four sizes sum to \<open>n\<close>.
\<close>

theorem split_train_ratio_below_one:
  assumes "train_ratio < 1"
  shows "let val_size = py_int (fmul val_ratio (int n));
             test_size = py_int (fmul test_ratio (int n));
             remaining = int n - val_size - test_size;
             product = fmul train_ratio remaining;
             train_size = (if 0 \<le> product then \<lfloor>product\<rfloor> else \<lceil>product\<rceil>);
             discard_size = remaining - train_size
         in split_lengths fmul n val_ratio test_ratio train_ratio
              = [val_size, test_size, train_size, discard_size]
            \<and> \<bar>train_size\<bar> = \<lfloor>\<bar>product\<bar>\<rfloor>
            \<and> val_size + test_size + train_size + discard_size = int n"
proof -
  have ne: "train_ratio \<noteq> 1" using assms by simp
  have t: "(if 0 \<le> x then \<lfloor>x\<rfloor> else \<lceil>x\<rceil>) = py_int x" for x :: real
    by (simp add: py_int_def)
  show ?thesis
    unfolding Let_def t split_lengths_other [OF ne] by (simp add: py_int_abs)
qed

text \<open>Eight records with ratios 0.25, 0.25 and 0.5: four remain, two train, two are discarded.\<close>

theorem split_train_ratio_below_one_witness:
  "(1 / 2 :: real) < 1 \<and> split_lengths exact_product 8 (1 / 4) (1 / 4) (1 / 2) = [2, 2, 2, 2]"
  using split_train_ratio_below_one [of "1 / 2" exact_product "1 / 4" 8 "1 / 4"]
  by (simp add: py_int_def Let_def exact_product_def)

text \<open>
  C3 as stated fails: eight records with ratios 0.75, 0.75 and 0.375 leave
  \<open>remaining = -4\<close>; the float product is exactly -1.5, and the train size is
  \<open>int(-1.5) = -1\<close>, not \<open>\<lfloor>-1.5\<rfloor> = -2\<close>.
\<close>

theorem split_train_ratio_below_one_counterexample:
  "(3 / 8 :: real) < 1
   \<and> exact_product (3 / 8) (8 - 6 - 6) = - (3 / 2)
   \<and> split_lengths exact_product 8 (3 / 4) (3 / 4) (3 / 8) = [6, 6, - 1, - 3]
   \<and> split_lengths exact_product 8 (3 / 4) (3 / 4) (3 / 8) ! 2
        \<noteq> \<lfloor>exact_product (3 / 8) (8 - 6 - 6)\<rfloor>"
  by (simp add: split_lengths_def py_int_def exact_product_def)

subsection \<open>\<^verbatim>\<open>random_split\<close>\<close>

lemma py_slice_length:
  assumes "0 \<le> a" "a \<le> b" "b \<le> int (length xs)"
  shows "int (length (py_slice xs a b)) = b - a"
proof -
  have sa: "slice_bound (length xs) a = nat a" and sb: "slice_bound (length xs) b = nat b"
    using assms by (simp_all add: slice_bound_def)
  show ?thesis unfolding py_slice_def sa sb using assms by simp
qed

lemma slices_lengths:
  assumes "list_all (\<lambda>l. 0 \<le> l) ls" "0 \<le> acc" "acc + sum_list ls \<le> int (length xs)"
  shows "map (\<lambda>(offset, l). int (length (py_slice xs (offset - l) offset)))
           (zip (accumulate acc ls) ls) = ls"
  using assms
proof (induction ls arbitrary: acc)
  case Nil
  then show ?case by simp
next
  case (Cons l ls)
  have l0: "0 \<le> l" and rest: "list_all (\<lambda>l. 0 \<le> l) ls" using Cons.prems(1) by simp_all
  have s0: "0 \<le> sum_list ls" using rest by (induction ls) simp_all
  have "int (length (py_slice xs acc (acc + l))) = acc + l - acc"
    using Cons.prems l0 s0 by (intro py_slice_length) simp_all
  moreover have "map (\<lambda>(offset, l). int (length (py_slice xs (offset - l) offset)))
           (zip (accumulate (acc + l) ls) ls) = ls"
    using Cons.prems l0 by (intro Cons.IH rest) (simp_all add: add.assoc)
  ultimately show ?case by simp
qed

lemma nonneg_member_le_sum:
  "list_all (\<lambda>l. 0 \<le> l) ls \<Longrightarrow> x \<in> set ls \<Longrightarrow> x \<le> sum_list (ls :: int list)"
proof (induction ls)
  case Nil
  then show ?case by simp
next
  case (Cons l ls)
  have s0: "0 \<le> sum_list ls" using Cons.prems(1) by (induction ls) simp_all
  show ?case
  proof (cases "x = l")
    case True
    then show ?thesis using s0 by simp
  next
    case False
    with Cons have "x \<le> sum_list ls" by simp
    then show ?thesis using Cons.prems(1) by simp
  qed
qed

lemma random_split_nonneg:
  assumes nonneg: "list_all (\<lambda>l. 0 \<le> l) lengths"
    and total: "sum_list lengths = int n"
    and perm: "length (randperm n) = n"
  shows "\<exists>subsets. random_split fractions randperm n lengths = Inr subsets
           \<and> map (\<lambda>subset. int (length subset)) subsets = lengths"
proof -
  have first: "(if fractions \<and> sum_list lengths = 1
        then (if list_ex (\<lambda>frac. frac < 0 \<or> 1 < frac) lengths
              then Inl (ValueError ''Fraction is not between 0 and 1'')
              else (let subset_lengths = map (\<lambda>frac. int n * frac) lengths
                    in Inr (add_remainder (int n - sum_list subset_lengths) subset_lengths)))
        else Inr lengths) = Inr lengths"
  proof (cases "fractions \<and> sum_list lengths = 1")
    case True
    then have n1: "int n = 1" using total by simp
    have "\<not> list_ex (\<lambda>frac. frac < 0 \<or> 1 < frac) lengths"
    proof
      assume "list_ex (\<lambda>frac. frac < 0 \<or> 1 < frac) lengths"
      then obtain x where x: "x \<in> set lengths" "x < 0 \<or> 1 < x"
        by (auto simp: list_ex_iff)
      from nonneg x(1) have "0 \<le> x" by (auto simp: list_all_iff)
      moreover from nonneg_member_le_sum [OF nonneg x(1)] True have "x \<le> 1" by simp
      ultimately show False using x(2) by simp
    qed
    moreover have m: "map (\<lambda>frac. int n * frac) lengths = lengths"
      unfolding n1 by simp
    moreover have "add_remainder (int n - sum_list lengths) lengths = lengths"
      using True n1 by (simp add: add_remainder_def)
    ultimately show ?thesis using True by (simp add: Let_def)
  next
    case False
    then show ?thesis by auto
  qed
  let ?subsets = "map (\<lambda>(offset, length). py_slice (randperm (nat (sum_list lengths)))
                          (offset - length) offset) (zip (accumulate 0 lengths) lengths)"
  have rs: "random_split fractions randperm n lengths = Inr ?subsets"
    unfolding random_split_def first by (simp add: total)
  have "map (\<lambda>(offset, l). int (length (py_slice (randperm n) (offset - l) offset)))
           (zip (accumulate 0 lengths) lengths) = lengths"
    by (rule slices_lengths [OF nonneg]) (simp_all add: total perm)
  then have "map (\<lambda>subset. int (length subset)) ?subsets = lengths"
    by (simp add: total comp_def case_prod_unfold)
  with rs show ?thesis by blast
qed

lemma split_lengths_nonneg:
  assumes bounds: "\<And>r k. 0 \<le> r \<Longrightarrow> r \<le> 1 \<Longrightarrow> 0 \<le> k \<Longrightarrow> k \<le> int n \<Longrightarrow>
                     0 \<le> fmul r k \<and> fmul r k \<le> real_of_int k"
    and ratios: "0 < val_ratio" "val_ratio \<le> 1" "0 < test_ratio" "test_ratio \<le> 1"
      "0 < train_ratio" "train_ratio \<le> 1"
    and fits: "py_int (fmul val_ratio (int n)) + py_int (fmul test_ratio (int n)) \<le> int n"
  shows "list_all (\<lambda>l. 0 \<le> l) (split_lengths fmul n val_ratio test_ratio train_ratio)"
proof -
  let ?v = "py_int (fmul val_ratio (int n))" and ?t = "py_int (fmul test_ratio (int n))"
  have pv: "0 \<le> fmul val_ratio (int n)" and pt: "0 \<le> fmul test_ratio (int n)"
    using bounds [of val_ratio "int n"] bounds [of test_ratio "int n"] ratios by simp_all
  have v: "0 \<le> ?v" and t: "0 \<le> ?t"
    using pv pt by (simp_all add: py_int_nonneg)
  let ?rem = "int n - ?v - ?t"
  have rem: "0 \<le> ?rem" "?rem \<le> int n" using fits v t by simp_all
  show ?thesis
  proof (cases "train_ratio = 1")
    case True
    then show ?thesis using v t rem by (simp add: split_lengths_one)
  next
    case False
    have p: "0 \<le> fmul train_ratio ?rem" "fmul train_ratio ?rem \<le> real_of_int ?rem"
      using bounds [of train_ratio ?rem] ratios rem by simp_all
    have tr: "py_int (fmul train_ratio ?rem) = \<lfloor>fmul train_ratio ?rem\<rfloor>"
      using p(1) by (rule py_int_nonneg)
    have "0 \<le> \<lfloor>fmul train_ratio ?rem\<rfloor>" using p(1) by simp
    moreover have "\<lfloor>fmul train_ratio ?rem\<rfloor> \<le> ?rem" using p(2) by (simp add: floor_le_iff)
    ultimately show ?thesis
      using v t unfolding split_lengths_other [OF False] tr by simp
  qed
qed

text \<open>
  C4 (as amended). The script checks no ratio and has no error for one. When the three
  ratios lie in \<open>(0, 1]\<close> and \<open>val_size + test_size \<le> n\<close>, the split does not fail,
  with either version of \<^verbatim>\<open>random_split\<close>, and the validation, test and train
  subsets have exactly the computed sizes. This needs of the float product that for a
  ratio in \<open>[0, 1]\<close> and a count \<open>k\<close> up to \<open>n\<close> it lies between 0 and \<open>k\<close>, as a
  correctly rounded product does when \<open>k\<close> is a double; and of the permutation that
  it has \<open>n\<close> entries.
\<close>

theorem dataset_split_valid_ratios:
  assumes bounds: "\<And>r k. 0 \<le> r \<Longrightarrow> r \<le> 1 \<Longrightarrow> 0 \<le> k \<Longrightarrow> k \<le> int n \<Longrightarrow>
                     0 \<le> fmul r k \<and> fmul r k \<le> real_of_int k"
    and perm: "length (randperm n) = n"
    and ratios: "0 < val_ratio" "val_ratio \<le> 1" "0 < test_ratio" "test_ratio \<le> 1"
      "0 < train_ratio" "train_ratio \<le> 1"
    and fits: "py_int (fmul val_ratio (int n)) + py_int (fmul test_ratio (int n)) \<le> int n"
  shows "\<exists>val_dataset test_dataset train_dataset.
           dataset_split fractions randperm fmul n val_ratio test_ratio train_ratio
             = Inr (val_dataset, test_dataset, train_dataset)
         \<and> int (length val_dataset) = split_lengths fmul n val_ratio test_ratio train_ratio ! 0
         \<and> int (length test_dataset) = split_lengths fmul n val_ratio test_ratio train_ratio ! 1
         \<and> int (length train_dataset) = split_lengths fmul n val_ratio test_ratio train_ratio ! 2"
proof -
  let ?ls = "split_lengths fmul n val_ratio test_ratio train_ratio"
  have nonneg: "list_all (\<lambda>l. 0 \<le> l) ?ls"
    by (rule split_lengths_nonneg [OF bounds ratios fits])
  from random_split_nonneg [where lengths = ?ls and n = n and randperm = randperm
      and fractions = fractions, OF nonneg sum_split_lengths perm]
  obtain subsets where rs: "random_split fractions randperm n ?ls = Inr subsets"
    and sizes: "map (\<lambda>subset. int (length subset)) subsets = ?ls"
    by blast
  show ?thesis
  proof (cases "train_ratio = 1")
    case True
    have "length ?ls = 3" unfolding True by (simp add: split_lengths_one)
    then have "length subsets = 3" using sizes by (metis length_map)
    then obtain a b c where s: "subsets = [a, b, c]"
      by (auto simp: length_Suc_conv numeral_3_eq_3)
    have "dataset_split fractions randperm fmul n val_ratio test_ratio train_ratio = Inr (a, b, c)"
      unfolding dataset_split_def rs s using True by simp
    moreover have "int (length a) = ?ls ! 0" "int (length b) = ?ls ! 1" "int (length c) = ?ls ! 2"
      using sizes [symmetric] unfolding s by simp_all
    ultimately show ?thesis by blast
  next
    case False
    have "length ?ls = 4" by (simp add: split_lengths_other [OF False])
    then have "length subsets = 4" using sizes by (metis length_map)
    then obtain a b c d where s: "subsets = [a, b, c, d]"
      by (auto simp: length_Suc_conv numeral_eq_Suc)
    have "dataset_split fractions randperm fmul n val_ratio test_ratio train_ratio = Inr (a, b, c)"
      unfolding dataset_split_def rs s using False by simp
    moreover have "int (length a) = ?ls ! 0" "int (length b) = ?ls ! 1" "int (length c) = ?ls ! 2"
      using sizes [symmetric] unfolding s by simp_all
    ultimately show ?thesis by blast
  qed
qed

lemma exact_product_bounds:
  "0 \<le> r \<Longrightarrow> r \<le> 1 \<Longrightarrow> 0 \<le> k \<Longrightarrow> k \<le> int n \<Longrightarrow>
     0 \<le> exact_product r k \<and> exact_product r k \<le> real_of_int k"
  by (simp add: exact_product_def mult_left_le_one_le)

lemma upt8: "[0..<8] = [0, 1, 2, 3, 4, 5, 6, 7]"
  by (simp add: upt_rec)

lemma example_lengths:
  "split_lengths exact_product 8 (1 / 4) (1 / 4) (1 / 2) = [2, 2, 2, 2]"
  "split_lengths exact_product 8 (3 / 4) (3 / 4) 1 = [6, 6, - 4]"
  "split_lengths exact_product 8 2 (3 / 4) 1 = [16, 6, - 14]"
  by (simp_all add: split_lengths_def py_int_def exact_product_def)

text \<open>
  Eight records with ratios 0.25, 0.25 and 0.5 under the identity permutation: the
  subsets are the indices 0--1, 2--3 and 4--5, and the last two records are discarded.
\<close>

theorem dataset_split_valid_ratios_witness:
  "dataset_split False identity_permutation exact_product 8 (1 / 4) (1 / 4) (1 / 2)
     = Inr ([0, 1], [2, 3], [4, 5])
   \<and> (\<exists>val_dataset test_dataset train_dataset.
         dataset_split True identity_permutation exact_product 8 (1 / 4) (1 / 4) (1 / 2)
           = Inr (val_dataset, test_dataset, train_dataset)
         \<and> length val_dataset = 2 \<and> length test_dataset = 2 \<and> length train_dataset = 2)"
proof -
  have len: "length (identity_permutation 8) = 8" by (simp add: identity_permutation_def)
  have fits: "py_int (exact_product (1 / 4) (int 8)) + py_int (exact_product (1 / 4) (int 8)) \<le> int 8"
    by (simp add: py_int_def exact_product_def)
  have r: "(0::real) < 1 / 4" "(1 / 4 :: real) \<le> 1" "(0::real) < 1 / 2" "(1 / 2 :: real) \<le> 1"
    by simp_all
  from dataset_split_valid_ratios [where fmul = exact_product and n = 8
      and randperm = identity_permutation and fractions = True,
      OF exact_product_bounds [where n = 8] len r(1,2) r(1,2) r(3,4) fits]
  have A: "\<exists>val_dataset test_dataset train_dataset.
         dataset_split True identity_permutation exact_product 8 (1 / 4) (1 / 4) (1 / 2)
           = Inr (val_dataset, test_dataset, train_dataset)
         \<and> length val_dataset = 2 \<and> length test_dataset = 2 \<and> length train_dataset = 2"
    unfolding example_lengths by simp
  have B: "dataset_split False identity_permutation exact_product 8 (1 / 4) (1 / 4) (1 / 2)
     = Inr ([0, 1], [2, 3], [4, 5])"
    by (simp add: dataset_split_def example_lengths random_split_def identity_permutation_def
        upt8 py_slice_def slice_bound_def)
  from A B show ?thesis by blast
qed

text \<open>
  C4 as stated fails: with eight records and ratios 0.75, 0.75 and 1 the validation and
  test sizes add up to 12, and the split returns subsets of 6, 2 and 0 records; with a
  validation ratio of 2, outside \<open>(0, 1]\<close>, it returns subsets of 8, 0 and 0 records.
  Neither is an error, with either version of \<^verbatim>\<open>random_split\<close>.
\<close>

theorem dataset_split_counterexample:
  "int 8 < py_int (exact_product (3 / 4) (int 8)) + py_int (exact_product (3 / 4) (int 8))
   \<and> dataset_split False identity_permutation exact_product 8 (3 / 4) (3 / 4) 1
       = Inr ([0, 1, 2, 3, 4, 5], [6, 7], [])
   \<and> dataset_split True identity_permutation exact_product 8 (3 / 4) (3 / 4) 1
       = Inr ([0, 1, 2, 3, 4, 5], [6, 7], [])
   \<and> dataset_split False identity_permutation exact_product 8 2 (3 / 4) 1
       = Inr ([0, 1, 2, 3, 4, 5, 6, 7], [], [])
   \<and> dataset_split True identity_permutation exact_product 8 2 (3 / 4) 1
       = Inr ([0, 1, 2, 3, 4, 5, 6, 7], [], [])"
proof -
  have "int 8 < py_int (exact_product (3 / 4) (int 8)) + py_int (exact_product (3 / 4) (int 8))"
    by (simp add: py_int_def exact_product_def)
  moreover have "dataset_split fractions identity_permutation exact_product 8 (3 / 4) (3 / 4) 1
       = Inr ([0, 1, 2, 3, 4, 5], [6, 7], [])" for fractions
    by (simp add: dataset_split_def example_lengths random_split_def identity_permutation_def
        upt8 py_slice_def slice_bound_def)
  moreover have "dataset_split fractions identity_permutation exact_product 8 2 (3 / 4) 1
       = Inr ([0, 1, 2, 3, 4, 5, 6, 7], [], [])" for fractions
    by (simp add: dataset_split_def example_lengths random_split_def identity_permutation_def
        upt8 py_slice_def slice_bound_def)
  ultimately show ?thesis by blast
qed

text \<open>
  Invalid lengths can fail inside \<^verbatim>\<open>random_split\<close>, depending on its version: one
  record with validation and test ratios 1 gives the lengths 1, 1 and -1, which the
  later versions read as fractions.
\<close>

lemma random_split_version:
  "random_split False identity_permutation 1 [1, 1, - 1] = Inr [[0], [], []]
   \<and> random_split True identity_permutation 1 [1, 1, - 1]
       = Inl (ValueError ''Fraction is not between 0 and 1'')"
  by (simp add: random_split_def identity_permutation_def py_slice_def slice_bound_def)

subsection \<open>\<^verbatim>\<open>customToTensor\<close>\<close>

lemma resize_image_exact:
  "resize_image (NpArray ExactNdarray a) s = Inr (resize_data a s)"
  by (simp add: resize_image_def)

lemma customToTensor_total: "\<exists>img. customToTensor f32 (Ndarray a) = Inr img"
  by (simp add: customToTensor_def resize_image_exact)

lemma concat_replicate_nth:
  "i < k * length xs \<Longrightarrow> concat (replicate k xs) ! i = xs ! (i mod length xs)"
proof (induction k arbitrary: i)
  case 0
  then show ?case by simp
next
  case (Suc k)
  show ?case
  proof (cases "i < length xs")
    case True
    then show ?thesis by (simp add: nth_append)
  next
    case False
    then have "i - length xs < k * length xs" using Suc.prems by simp
    from Suc.IH [OF this] False show ?thesis
      by (simp add: nth_append le_mod_geq)
  qed
qed

lemma length_concat_replicate: "length (concat (replicate k xs)) = k * length xs"
  by (induction k) simp_all

lemma repeats_cover:
  assumes "0 < (a::nat)"
  shows "m \<le> ((m + a - 1) div a) * a"
proof -
  have "m + a - 1 = ((m + a - 1) div a) * a + (m + a - 1) mod a" by simp
  moreover have "(m + a - 1) mod a < a" using assms by simp
  ultimately show ?thesis by linarith
qed

lemma resize_data_props:
  "shape (resize_data a s) = s \<and> dtype (resize_data a s) = dtype a
     \<and> length (items (resize_data a s)) = prod_list s
     \<and> (\<forall>i < prod_list s.
          items (resize_data a s) ! i
            = (if items a = [] then 0 else items a ! (i mod length (items a))))"
proof (cases "items a = [] \<or> prod_list s = 0")
  case True
  then show ?thesis by (auto simp: resize_data_def Let_def)
next
  case False
  then have pos: "0 < length (items a)" by simp
  let ?k = "(prod_list s + length (items a) - 1) div length (items a)"
  let ?r = "\<lparr>shape = s, dtype = dtype a,
             items = take (prod_list s) (concat (replicate ?k (items a)))\<rparr>"
  have cover: "prod_list s \<le> ?k * length (items a)" by (rule repeats_cover [OF pos])
  have r: "resize_data a s = ?r" using False by (simp add: resize_data_def Let_def)
  have "length (items ?r) = prod_list s"
    using cover by (simp add: length_concat_replicate)
  moreover have "\<forall>i < prod_list s. items ?r ! i = items a ! (i mod length (items a))"
  proof (intro allI impI)
    fix i assume i: "i < prod_list s"
    then have "i < ?k * length (items a)" using cover by linarith
    from concat_replicate_nth [OF this] i
    show "items ?r ! i = items a ! (i mod length (items a))" by simp
  qed
  ultimately show ?thesis unfolding r using False by auto
qed

lemma resize_image_masked: "resize_image (NpArray Masked a) s = Inl TypeError"
  by (simp add: resize_image_def)

lemma resize_image_unmasked:
  "kind \<noteq> Masked \<Longrightarrow> resize_image (NpArray kind a) s = Inr (resize_data a s)"
  by (cases kind) (simp_all add: resize_image_def)

text \<open>
  C10 (as amended). For an object whose type is \<^verbatim>\<open>numpy.ndarray\<close> itself, of
  floating-point data without negative strides, \<^verbatim>\<open>customToTensor\<close> returns
  \<^verbatim>\<open>np.resize(img, (150, 150, 200))\<close> converted to \<^verbatim>\<open>float32\<close>: an array of shape
  \<open>(150, 150, 200)\<close> whose 4500000 elements repeat the flattened input cyclically
  (zeros for an empty input); the tensor of \<^verbatim>\<open>torch.from_numpy\<close> is not used. The
  call of \<^verbatim>\<open>torch.from_numpy\<close> runs first all the same, and for an array with a
  negative stride its \<^verbatim>\<open>ValueError\<close> is the result. For anything that is no instance
  of \<^verbatim>\<open>numpy.ndarray\<close> the result is \<^verbatim>\<open>None\<close>. \<^verbatim>\<open>resize_image\<close> does not reach
  its \<^verbatim>\<open>raise\<close> for an array of type \<^verbatim>\<open>numpy.ndarray\<close> itself, and reaches it for
  a masked array, which \<^verbatim>\<open>np.resize\<close> returns as a masked array.
\<close>

theorem customToTensor_resizes:
  "customToTensor f32 (Ndarray a)
     = Inr (Ndarray (astype f32 Float32 (resize_data a [150, 150, 200])))
   \<and> np_resize (NpArray ExactNdarray a) [150, 150, 200]
       = NpArray ExactNdarray (resize_data a [150, 150, 200])
   \<and> shape (astype f32 Float32 (resize_data a [150, 150, 200])) = [150, 150, 200]
   \<and> dtype (astype f32 Float32 (resize_data a [150, 150, 200])) = Float32
   \<and> length (items (astype f32 Float32 (resize_data a [150, 150, 200]))) = 4500000
   \<and> (\<forall>i < 4500000. items (astype f32 Float32 (resize_data a [150, 150, 200])) ! i =
          f32 (if items a = [] then 0 else items a ! (i mod length (items a))))
   \<and> customToTensor f32 (NegStrideNdarray a)
       = Inl (ValueError ''At least one stride in the given numpy array is negative'')
   \<and> customToTensor f32 (MaskedArray a) = Inl TypeError
   \<and> (\<forall>x. as_ndarray x = None \<longrightarrow> customToTensor f32 x = Inr PyNone)
   \<and> (\<forall>kind img trg. kind \<noteq> Masked \<longrightarrow>
         resize_image (NpArray kind img) trg = Inr (resize_data img trg))
   \<and> (\<forall>img trg. resize_image (NpArray Masked img) trg = Inl TypeError)"
proof -
  let ?r = "resize_data a [150, 150, 200]"
  have p: "prod_list [150, 150, 200] = (4500000::nat)" by simp
  from resize_data_props [of a "[150, 150, 200]"]
  have r: "shape ?r = [150, 150, 200]" "length (items ?r) = 4500000"
    "\<forall>i < 4500000. items ?r ! i = (if items a = [] then 0 else items a ! (i mod length (items a)))"
    unfolding p by blast+
  have c1: "customToTensor f32 (Ndarray a) = Inr (Ndarray (astype f32 Float32 ?r))"
    by (simp add: customToTensor_def resize_image_exact)
  have c2: "np_resize (NpArray ExactNdarray a) [150, 150, 200] = NpArray ExactNdarray ?r"
    by simp
  have c3: "shape (astype f32 Float32 ?r) = [150, 150, 200]"
    "dtype (astype f32 Float32 ?r) = Float32"
    "length (items (astype f32 Float32 ?r)) = 4500000"
    using r by (simp_all add: astype_def)
  have c4: "\<forall>i < 4500000. items (astype f32 Float32 ?r) ! i =
          f32 (if items a = [] then 0 else items a ! (i mod length (items a)))"
    using r by (simp add: astype_def)
  have c5: "customToTensor f32 (NegStrideNdarray a)
       = Inl (ValueError ''At least one stride in the given numpy array is negative'')"
    by (simp add: customToTensor_def)
  have c6: "customToTensor f32 (MaskedArray a) = Inl TypeError"
    by (simp add: customToTensor_def resize_image_masked)
  have c7: "\<forall>x. as_ndarray x = None \<longrightarrow> customToTensor f32 x = Inr PyNone"
    by (simp add: customToTensor_def)
  have c8: "\<forall>kind img trg. kind \<noteq> Masked \<longrightarrow>
         resize_image (NpArray kind img) trg = Inr (resize_data img trg)"
    using resize_image_unmasked by blast
  have c9: "\<forall>img trg. resize_image (NpArray Masked img) trg = Inl TypeError"
    using resize_image_masked by blast
  from c1 c2 c3 c4 c5 c6 c7 c8 c9 show ?thesis by blast
qed

text \<open>
  An array of the three values 1, 2, 3: the element at position 7 of the result is the
  element at position \<open>7 mod 3\<close> of the input; a tensor is not an array.
\<close>

theorem customToTensor_resizes_witness:
  "(\<exists>b. customToTensor (\<lambda>x. x) (Ndarray example_volume) = Inr (Ndarray b)
        \<and> shape b = [150, 150, 200] \<and> dtype b = Float32 \<and> items b ! 7 = 2)
   \<and> customToTensor (\<lambda>x. x) (Tensor [1] [0]) = Inr PyNone
   \<and> resize_image (NpArray NegativeStride example_volume) [3]
       = Inr (resize_data example_volume [3])"
proof -
  have i: "items example_volume = [1, 2, 3]" by (simp add: example_volume_def)
  have n: "as_ndarray (Tensor [1] [0]) = None" "NegativeStride \<noteq> Masked" by simp_all
  from customToTensor_resizes [of "\<lambda>x. x" example_volume] n
  show ?thesis unfolding i by auto
qed

text \<open>
  C10 as stated fails: the reversed view of the array 1, 2, 3 is an instance of
  \<^verbatim>\<open>numpy.ndarray\<close>, and \<^verbatim>\<open>customToTensor\<close> raises the \<^verbatim>\<open>ValueError\<close> of
  \<^verbatim>\<open>torch.from_numpy\<close> for it; a masked array is an instance too, and
  \<^verbatim>\<open>resize_image\<close> reaches its \<^verbatim>\<open>raise\<close> for it.
\<close>

theorem customToTensor_resizes_counterexample:
  "as_ndarray (NegStrideNdarray \<lparr>shape = [3], dtype = Float64, items = [3, 2, 1]\<rparr>) \<noteq> None
   \<and> customToTensor (\<lambda>x. x) (NegStrideNdarray \<lparr>shape = [3], dtype = Float64, items = [3, 2, 1]\<rparr>)
       = Inl (ValueError ''At least one stride in the given numpy array is negative'')
   \<and> as_ndarray (MaskedArray example_volume) \<noteq> None
   \<and> resize_image (NpArray Masked example_volume) [150, 150, 200] = Inl TypeError"
  by (simp add: customToTensor_def resize_image_masked)

subsection \<open>\<^verbatim>\<open>ADNIDataset\<close>\<close>

lemma getitem_label_classification:
  assumes "ds_classification self \<noteq> 0" "py_index lst (label_file_idx self) = Inr raw"
  shows "getitem_label py_float self lst =
           Inr (if strip CHR 0x22 raw = ''AD'' then Some (ClassLabel 1)
                else if strip CHR 0x22 raw = ''CN'' then Some (ClassLabel 0)
                else if strip CHR 0x22 raw = ''MCI'' then Some (ClassLabel 2)
                else None)"
  using assms by (simp add: getitem_label_def Let_def)

lemma getitem_label_regression:
  assumes "ds_classification self = 0" "py_index lst (label_file_idx self) = Inr raw"
  shows "getitem_label py_float self lst =
           (case py_float (strip CHR 0x22 raw) of
              None \<Rightarrow> Inl (ValueError (''could not convert string to float: '' @ strip CHR 0x22 raw))
            | Some v \<Rightarrow> Inr (Some (ScoreLabel v)))"
  using assms by (simp add: getitem_label_def)

lemma getitem_unfold:
  assumes "py_index (lines self) idx = Inr lst" "py_index lst 0 = Inr name"
  shows "getitem py_float nib_load f32 self idx =
     bind_err (getitem_label py_float self lst) (\<lambda>label.
        bind_err (nib_load (os_path_join (root_dir self) (strip CHR 0x22 name) @ ''.nii'')) (\<lambda>a.
           bind_err (customToTensor f32 (Ndarray a)) (\<lambda>a.
           case label of
             None \<Rightarrow> Inl (UnboundLocalError ''label'')
           | Some l \<Rightarrow> Inr (a, l))))"
  using assms by (simp add: getitem_def Let_def)

lemma init_fields:
  "ds_classification (ADNIDataset_init rd fl cls) = cls"
  "label_file_idx (ADNIDataset_init rd fl cls) = (if cls \<noteq> 0 then 2 else 4)"
  "root_dir (ADNIDataset_init rd fl cls) = rd"
  "lines (ADNIDataset_init rd fl cls) = drop 1 (map (split_on CHR '','') fl)"
  by (simp_all add: ADNIDataset_init_def)

lemma lines_example_manifest:
  "lines (ADNIDataset_init rd example_manifest cls) =
     [example_row, [''I2'', ''S2'', ''FOO'', ''M'', ''n/a'', ''x'']]"
  by (simp add: init_fields example_manifest_def example_row_def)

lemma example_rows:
  "py_index (lines (ADNIDataset_init rd example_manifest cls)) 0 = Inr example_row"
  "py_index (lines (ADNIDataset_init rd example_manifest cls)) 1
     = Inr [''I2'', ''S2'', ''FOO'', ''M'', ''n/a'', ''x'']"
  by (simp_all add: lines_example_manifest py_index_def)

lemma example_row_fields:
  "py_index example_row 0 = Inr (CHR 0x22 # ''I1'' @ [CHR 0x22])"
  "py_index example_row 2 = Inr (CHR 0x22 # ''AD'' @ [CHR 0x22])"
  "py_index example_row 4 = Inr (CHR 0x22 # ''72.3'' @ [CHR 0x22])"
  by (simp_all add: example_row_def py_index_def)

text \<open>
  C7. In classification mode the item of a row whose label column holds
  \<^verbatim>\<open>AD\<close>, \<^verbatim>\<open>CN\<close> or \<^verbatim>\<open>MCI\<close> (quotes stripped) carries the class code 1, 0 or 2,
  next to the resized image, whenever the row exists, has its name and label columns
  and its image file decodes.
\<close>

theorem getitem_class_codes:
  assumes "cls \<noteq> 0"
    and "py_index (lines (ADNIDataset_init rd fl cls)) idx = Inr lst"
    and "py_index lst 0 = Inr name"
    and "py_index lst 2 = Inr raw"
    and "nib_load (os_path_join rd (strip CHR 0x22 name) @ ''.nii'') = Inr a"
  shows "\<exists>img. customToTensor f32 (Ndarray a) = Inr img
       \<and> (strip CHR 0x22 raw = ''AD'' \<longrightarrow>
            getitem py_float nib_load f32 (ADNIDataset_init rd fl cls) idx = Inr (img, ClassLabel 1))
       \<and> (strip CHR 0x22 raw = ''CN'' \<longrightarrow>
            getitem py_float nib_load f32 (ADNIDataset_init rd fl cls) idx = Inr (img, ClassLabel 0))
       \<and> (strip CHR 0x22 raw = ''MCI'' \<longrightarrow>
            getitem py_float nib_load f32 (ADNIDataset_init rd fl cls) idx = Inr (img, ClassLabel 2))"
proof -
  let ?self = "ADNIDataset_init rd fl cls"
  obtain img where img: "customToTensor f32 (Ndarray a) = Inr img"
    using customToTensor_total by blast
  have l: "py_index lst (label_file_idx ?self) = Inr raw"
    using assms(1,4) by (simp add: init_fields)
  have c: "ds_classification ?self \<noteq> 0" using assms(1) by (simp add: init_fields)
  show ?thesis
    by (simp add: getitem_unfold [OF assms(2,3)] getitem_label_classification [OF c l]
        init_fields assms(5) img)
qed

text \<open>The first row of the example manifest is labelled \<^verbatim>\<open>"AD"\<close>: its class code is 1.\<close>

theorem getitem_class_codes_witness:
  "\<exists>img. getitem example_float example_nib_load (\<lambda>x. x)
            (ADNIDataset_init ''root'' example_manifest 1) 0 = Inr (img, ClassLabel 1)"
proof -
  have 0: "(1::int) \<noteq> 0" by simp
  have 4: "example_nib_load
             (os_path_join ''root'' (strip CHR 0x22 (CHR 0x22 # ''I1'' @ [CHR 0x22])) @ ''.nii'')
           = Inr example_volume"
    by (simp add: strip_def example_nib_load_def os_path_join_def)
  from getitem_class_codes [where nib_load = example_nib_load and py_float = example_float
      and ?f32.0 = "\<lambda>x. x", OF 0 example_rows(1) example_row_fields(1) example_row_fields(2) 4]
  show ?thesis by (auto simp: strip_def)
qed

lemma getitem_unknown_label:
  assumes "cls \<noteq> 0"
    and "py_index (lines (ADNIDataset_init rd fl cls)) idx = Inr lst"
    and "py_index lst 0 = Inr name"
    and "py_index lst 2 = Inr raw"
    and "strip CHR 0x22 raw \<notin> {''AD'', ''CN'', ''MCI''}"
  shows "getitem py_float nib_load f32 (ADNIDataset_init rd fl cls) idx =
           (case nib_load (os_path_join rd (strip CHR 0x22 name) @ ''.nii'') of
              Inl e \<Rightarrow> Inl e
            | Inr a \<Rightarrow> Inl (UnboundLocalError ''label''))"
proof -
  let ?self = "ADNIDataset_init rd fl cls"
  have l: "py_index lst (label_file_idx ?self) = Inr raw"
    using assms(1,4) by (simp add: init_fields)
  have c: "ds_classification ?self \<noteq> 0" using assms(1) by (simp add: init_fields)
  show ?thesis
  proof (cases "nib_load (os_path_join rd (strip CHR 0x22 name) @ ''.nii'')")
    case (Inl e)
    then show ?thesis using assms(5)
      by (simp add: getitem_unfold [OF assms(2,3)] getitem_label_classification [OF c l]
        init_fields)
  next
    case (Inr a)
    obtain img where img: "customToTensor f32 (Ndarray a) = Inr img"
      using customToTensor_total by blast
    then show ?thesis using assms(5) Inr
      by (simp add: getitem_unfold [OF assms(2,3)] getitem_label_classification [OF c l]
        init_fields)
  qed
qed

text \<open>
  C1 fails on the code. The second row of the example manifest is labelled
  \<^verbatim>\<open>FOO\<close>: no branch assigns \<^verbatim>\<open>label\<close>, the image is decoded and resized all the
  same, and the \<^verbatim>\<open>return\<close> raises \<^verbatim>\<open>UnboundLocalError\<close> for the variable
  \<^verbatim>\<open>label\<close>; when the image file is missing, the decoder's error comes first.
\<close>

theorem getitem_unknown_label_unbound:
  "getitem example_float example_nib_load (\<lambda>x. x)
     (ADNIDataset_init ''root'' example_manifest 1) 1 = Inl (UnboundLocalError ''label'')
   \<and> getitem example_float (\<lambda>path. Inl FileNotFoundError) (\<lambda>x. x)
     (ADNIDataset_init ''root'' example_manifest 1) 1 = Inl FileNotFoundError"
proof -
  let ?row = "[''I2'', ''S2'', ''FOO'', ''M'', ''n/a'', ''x'']"
  have 0: "(1::int) \<noteq> 0" by simp
  have 2: "py_index ?row 0 = Inr ''I2''" "py_index ?row 2 = Inr ''FOO''"
    by (simp_all add: py_index_def)
  have 5: "strip CHR 0x22 ''FOO'' \<notin> {''AD'', ''CN'', ''MCI''}"
    by (simp add: strip_def)
  have A: "getitem example_float example_nib_load (\<lambda>x. x)
     (ADNIDataset_init ''root'' example_manifest 1) 1 = Inl (UnboundLocalError ''label'')"
    by (simp add: getitem_unknown_label [OF 0 example_rows(2) 2 5] strip_def example_nib_load_def os_path_join_def)
  have B: "getitem example_float (\<lambda>path. Inl FileNotFoundError) (\<lambda>x. x)
     (ADNIDataset_init ''root'' example_manifest 1) 1 = Inl FileNotFoundError"
    by (simp add: getitem_unknown_label [OF 0 example_rows(2) 2 5])
  from A B show ?thesis by blast
qed

text \<open>
  C8. In regression mode the score column (quotes stripped) goes through \<^verbatim>\<open>float\<close>:
  where \<^verbatim>\<open>float\<close> rejects the string, the item access fails with its
  \<^verbatim>\<open>ValueError\<close>, before any image is read; where it returns a number, that number is
  the label of the item.
\<close>

theorem getitem_score:
  assumes "py_index (lines (ADNIDataset_init rd fl 0)) idx = Inr lst"
    and "py_index lst 0 = Inr name"
    and "py_index lst 4 = Inr raw"
  shows "(py_float (strip CHR 0x22 raw) = None \<longrightarrow>
            getitem py_float nib_load f32 (ADNIDataset_init rd fl 0) idx =
              Inl (ValueError (''could not convert string to float: '' @ strip CHR 0x22 raw)))
       \<and> (\<forall>v a. py_float (strip CHR 0x22 raw) = Some v
               \<and> nib_load (os_path_join rd (strip CHR 0x22 name) @ ''.nii'') = Inr a \<longrightarrow>
            (\<exists>img. customToTensor f32 (Ndarray a) = Inr img \<and>
               getitem py_float nib_load f32 (ADNIDataset_init rd fl 0) idx
                 = Inr (img, ScoreLabel v)))"
proof -
  let ?self = "ADNIDataset_init rd fl 0"
  have l: "py_index lst (label_file_idx ?self) = Inr raw"
    using assms(3) by (simp add: init_fields)
  have c: "ds_classification ?self = 0" by (simp add: init_fields)
  have u: "getitem py_float nib_load f32 ?self idx =
     bind_err (case py_float (strip CHR 0x22 raw) of
              None \<Rightarrow> Inl (ValueError (''could not convert string to float: '' @ strip CHR 0x22 raw))
            | Some v \<Rightarrow> Inr (Some (ScoreLabel v))) (\<lambda>label.
        bind_err (nib_load (os_path_join rd (strip CHR 0x22 name) @ ''.nii'')) (\<lambda>a.
           bind_err (customToTensor f32 (Ndarray a)) (\<lambda>a.
           case label of
             None \<Rightarrow> Inl (UnboundLocalError ''label'')
           | Some l \<Rightarrow> Inr (a, l))))"
    by (simp only: getitem_unfold [OF assms(1,2)] getitem_label_regression [OF c l] init_fields)
  have a: "py_float (strip CHR 0x22 raw) = None \<longrightarrow>
            getitem py_float nib_load f32 ?self idx =
              Inl (ValueError (''could not convert string to float: '' @ strip CHR 0x22 raw))"
    by (simp add: u)
  have b: "\<exists>img. customToTensor f32 (Ndarray a) = Inr img \<and>
               getitem py_float nib_load f32 ?self idx = Inr (img, ScoreLabel v)"
    if "py_float (strip CHR 0x22 raw) = Some v"
      "nib_load (os_path_join rd (strip CHR 0x22 name) @ ''.nii'') = Inr a" for v a
  proof -
    obtain img where img: "customToTensor f32 (Ndarray a) = Inr img"
      using customToTensor_total by blast
    then show ?thesis using that by (simp add: u)
  qed
  from a b show ?thesis by blast
qed

text \<open>
  The example manifest in regression mode: the first row has the score
  \<^verbatim>\<open>"72.3"\<close>, the second the score \<^verbatim>\<open>n/a\<close>.
\<close>

theorem getitem_score_witness:
  "(\<exists>img. getitem example_float example_nib_load (\<lambda>x. x)
            (ADNIDataset_init ''root'' example_manifest 0) 0 = Inr (img, ScoreLabel (723 / 10)))
   \<and> example_float ''n/a'' = None
   \<and> getitem example_float example_nib_load (\<lambda>x. x)
        (ADNIDataset_init ''root'' example_manifest 0) 1
       = Inl (ValueError ''could not convert string to float: n/a'')"
proof -
  let ?row = "[''I2'', ''S2'', ''FOO'', ''M'', ''n/a'', ''x'']"
  have 4: "example_nib_load
             (os_path_join ''root'' (strip CHR 0x22 (CHR 0x22 # ''I1'' @ [CHR 0x22])) @ ''.nii'')
           = Inr example_volume"
    by (simp add: strip_def example_nib_load_def os_path_join_def)
  have 5: "example_float (strip CHR 0x22 (CHR 0x22 # ''72.3'' @ [CHR 0x22])) = Some (723 / 10)"
    by (simp add: strip_def example_float_def)
  have 7: "py_index ?row 0 = Inr ''I2''" "py_index ?row 4 = Inr ''n/a''"
    by (simp_all add: py_index_def)
  have 9: "example_float ''n/a'' = None"
    by (simp add: example_float_def)
  from getitem_score [where nib_load = example_nib_load and py_float = example_float
      and ?f32.0 = "\<lambda>x. x", OF example_rows(1) example_row_fields(1) example_row_fields(3)] 4 5
  have A: "\<exists>img. getitem example_float example_nib_load (\<lambda>x. x)
            (ADNIDataset_init ''root'' example_manifest 0) 0 = Inr (img, ScoreLabel (723 / 10))"
    by blast
  from getitem_score [where nib_load = example_nib_load and py_float = example_float
      and ?f32.0 = "\<lambda>x. x", OF example_rows(2) 7] 9
  have B: "getitem example_float example_nib_load (\<lambda>x. x)
        (ADNIDataset_init ''root'' example_manifest 0) 1
       = Inl (ValueError ''could not convert string to float: n/a'')"
    by (simp add: strip_def)
  from A B 9 show ?thesis by blast
qed

subsection \<open>Construction of the model\<close>

lemma bind_err_Inr: "bind_err m f = Inr y \<Longrightarrow> \<exists>x. m = Inr x \<and> f x = Inr y"
  by (cases m) simp_all

lemma map_err_Inr:
  "map_err f xs = Inr ys \<Longrightarrow> list_all2 (\<lambda>x y. f x = Inr y) xs ys"
proof (induction xs arbitrary: ys)
  case Nil
  then show ?case by simp
next
  case (Cons x xs)
  then show ?case by (auto split: sum.splits)
qed

lemma load_state_dict_flags:
  assumes "load_state_dict m state = Inr m'"
  shows "map (\<lambda>(k, p). (k, requires_grad p)) (named_parameters m')
           = map (\<lambda>(k, p). (k, requires_grad p)) (named_parameters m)"
proof -
  have "m' = m\<lparr>named_parameters :=
                   map (\<lambda>(k, p). (k, case map_of state k of
                                        None \<Rightarrow> p
                                      | Some t \<Rightarrow> p\<lparr>data := t\<rparr>)) (named_parameters m)\<rparr>"
    using assms by (simp add: load_state_dict_def split: if_splits)
  then show ?thesis
    by (auto split: option.splits)
qed

lemma disable_gradient_flags:
  "p \<in> set (map snd (named_parameters (disable_gradient m))) \<Longrightarrow> \<not> requires_grad p"
  by (auto simp: disable_gradient_def)

lemma init_Inr:
  assumes "FinetuneModel_init MVT cnn ck loaded rand args = Inr self"
  shows "\<exists>tr cnns.
           load_state_dict (MVT args) ck = Inr tr
         \<and> map_err (\<lambda>(model_idx, model).
                      bind_err (py_index loaded (int model_idx)) (load_state_dict model))
             (enumerate 0 (map (\<lambda>i. cnn i (n_hidden args)) [0..<3])) = Inr cnns
         \<and> hparams self = args
         \<and> transformer self = (if finetune_transformer args = 0 then disable_gradient tr else tr)
         \<and> cnn_models self = (if finetune_cnn args = 0 then map disable_gradient cnns else cnns)
         \<and> mlps self =
              [new_Linear (rand 0) (rand 1) (n_hidden args) (n_hidden args), ReLU]
              @ (if classification args \<noteq> 0
                 then [new_Linear (rand 2) (rand 3) (n_hidden args) 3]
                 else [new_Linear (rand 2) (rand 3) (n_hidden args) 1, Sigmoid])"
proof -
  from assms obtain tr where tr: "load_state_dict (MVT args) ck = Inr tr"
    unfolding FinetuneModel_init_def by (auto dest!: bind_err_Inr)
  from assms tr obtain cnns where
    cnns: "map_err (\<lambda>(model_idx, model).
                      bind_err (py_index loaded (int model_idx)) (load_state_dict model))
             (enumerate 0 (map (\<lambda>i. cnn i (n_hidden args)) [0..<3])) = Inr cnns"
    unfolding FinetuneModel_init_def Let_def by (auto dest!: bind_err_Inr)
  from assms have "self = (if classification args \<noteq> 0
        then \<lparr>hparams = args, transformer = (if finetune_transformer args = 0 then disable_gradient tr else tr),
               cnn_models = (if finetune_cnn args = 0 then map disable_gradient cnns else cnns),
                  train_metric = AUROC 3, test_metric = AUROC 3, val_metric = AUROC 3,
                  loss = nll_loss,
                  mlps = [new_Linear (rand 0) (rand 1) (n_hidden args) (n_hidden args), ReLU] @ [new_Linear (rand 2) (rand 3) (n_hidden args) 3]\<rparr>
        else \<lparr>hparams = args, transformer = (if finetune_transformer args = 0 then disable_gradient tr else tr),
                cnn_models = (if finetune_cnn args = 0 then map disable_gradient cnns else cnns),
                  train_metric = MeanAbsoluteError, test_metric = MeanAbsoluteError,
                  val_metric = MeanAbsoluteError,
                  loss = smooth_l1_loss,
                  mlps = [new_Linear (rand 0) (rand 1) (n_hidden args) (n_hidden args), ReLU] @ [new_Linear (rand 2) (rand 3) (n_hidden args) 1, Sigmoid]\<rparr>)"
    unfolding FinetuneModel_init_def Let_def tr cnns by (simp split: if_splits)
  then have "hparams self = args
         \<and> transformer self = (if finetune_transformer args = 0 then disable_gradient tr else tr)
         \<and> cnn_models self = (if finetune_cnn args = 0 then map disable_gradient cnns else cnns)
         \<and> mlps self =
              [new_Linear (rand 0) (rand 1) (n_hidden args) (n_hidden args), ReLU]
              @ (if classification args \<noteq> 0
                 then [new_Linear (rand 2) (rand 3) (n_hidden args) 3]
                 else [new_Linear (rand 2) (rand 3) (n_hidden args) 1, Sigmoid])"
    by simp
  with tr cnns show ?thesis by blast
qed

lemma new_Linear_parameters:
  "filter requires_grad (layer_parameters (new_Linear rw rb i out)) = layer_parameters (new_Linear rw rb i out)"
  by (simp add: new_Linear_def)

subsection \<open>The forward pass and the step\<close>

lemma new_Linear_forward_length:
  "layer_forward (new_Linear rw rb i out) x = Inr y \<Longrightarrow> length y = out"
  by (auto simp: new_Linear_def split: if_splits)

lemma sigmoid_range: "0 < sigmoid x \<and> sigmoid x < 1"
proof -
  have a: "1 < 1 + exp (- x)" by simp
  then have b: "0 < 1 + exp (- x)" by linarith
  have "0 < 1 / (1 + exp (- x))" using b by simp
  moreover have "1 / (1 + exp (- x)) < 1" using a b by (simp add: divide_less_eq)
  ultimately show ?thesis by (simp add: sigmoid_def)
qed

lemma Sequential_append:
  "Sequential (ls @ ks) x = bind_err (Sequential ls x) (Sequential ks)"
proof (induction ls arbitrary: x)
  case Nil
  then show ?case by simp
next
  case (Cons l ls)
  then show ?case by (cases "layer_forward l x") simp_all
qed

lemma regression_head:
  assumes "Sequential [l1, ReLU, new_Linear rw rb i 1, Sigmoid] x = Inr y"
  shows "length y = 1 \<and> (\<forall>v \<in> set y. 0 < v \<and> v < 1)"
proof -
  from assms obtain x1 where "layer_forward l1 x = Inr x1"
    and "Sequential [ReLU, new_Linear rw rb i 1, Sigmoid] x1 = Inr y"
    by (auto dest!: bind_err_Inr)
  then obtain z where z: "layer_forward (new_Linear rw rb i 1) (map (max 0) x1) = Inr z"
    and y: "y = map sigmoid z"
    by (auto dest!: bind_err_Inr)
  from new_Linear_forward_length [OF z] y show ?thesis
    by (auto simp: sigmoid_range)
qed


lemma forward_Inr:
  assumes "forward os tf self x = Inr out"
  shows "\<exists>feats ys. map_err (Sequential (mlps self)) feats = Inr ys
           \<and> out = (if classification (hparams self) = 0 then map (map (\<lambda>v. v * 100)) ys else ys)"
  using assms unfolding forward_def Let_def
  by (auto dest!: bind_err_Inr split: if_splits)

lemma map_err_set:
  "map_err f xs = Inr ys \<Longrightarrow> y \<in> set ys \<Longrightarrow> \<exists>x \<in> set xs. f x = Inr y"
proof (induction xs arbitrary: ys)
  case Nil
  then show ?case by simp
next
  case (Cons x xs)
  then show ?case by (auto split: sum.splits)
qed

text \<open>
  C5. In regression mode every entry of the output of \<^verbatim>\<open>forward\<close> lies in
  \<open>[0, 100]\<close>: the last layers are a linear layer with one output and a sigmoid,
  whose value in \<open>(0, 1)\<close> is multiplied by 100. (Real arithmetic; the model is one
  built by \<^verbatim>\<open>__init__\<close>, the forward pass one that raises no error.)
\<close>

theorem forward_regression_range:
  assumes "FinetuneModel_init MultiViewTransformer cnn_multi_dim transformer_checkpoint loaded
             rand args = Inr self"
    and "classification args = 0"
    and "forward output_single transformer_forward self x = Inr out"
  shows "\<forall>row \<in> set out. length row = 1 \<and> (\<forall>v \<in> set row. 0 \<le> v \<and> v \<le> 100)"
proof
  fix row assume row: "row \<in> set out"
  from init_Inr [OF assms(1)] assms(2)
  have hp: "classification (hparams self) = 0"
    and ml: "mlps self = [new_Linear (rand 0) (rand 1) (n_hidden args) (n_hidden args), ReLU,
                          new_Linear (rand 2) (rand 3) (n_hidden args) 1, Sigmoid]"
    by auto
  from forward_Inr [OF assms(3)] hp obtain feats ys where
    ys: "map_err (Sequential (mlps self)) feats = Inr ys" and out: "out = map (map (\<lambda>v. v * 100)) ys"
    by auto
  from row out obtain y where y: "y \<in> set ys" and r: "row = map (\<lambda>v. v * 100) y" by auto
  from map_err_set [OF ys y] obtain f where "Sequential (mlps self) f = Inr y" by blast
  from regression_head [OF this [unfolded ml]]
  have "length y = 1" and "\<forall>v \<in> set y. 0 < v \<and> v < 1" by simp_all
  then show "length row = 1 \<and> (\<forall>v \<in> set row. 0 \<le> v \<and> v \<le> 100)"
    unfolding r by auto
qed

lemma upt3: "[0..<3] = [0, 1, 2]"
  by (simp add: upt_rec)

lemma example_model_eq: "example_model cls = Inr (example_built cls)"
  by (simp add: example_model_def example_built_def FinetuneModel_init_def example_args_def
      example_module_def example_frozen_def load_state_dict_def disable_gradient_def
      upt3 enumerate_eq_zip py_index_def example_tensor_def Let_def)

lemma example_forward_0:
  "forward example_output_single example_transformer_forward (example_built 0) 0
     = Inr [[100 * sigmoid 2]]"
  by (simp add: forward_def example_built_def example_output_single_def example_args_def
      example_transformer_forward_def mean_rows_def new_Linear_def dot_def upt_rec)



text \<open>
  The example model in regression mode on the input 0: the output is
  \<open>100 * sigmoid 2\<close>.
\<close>

theorem forward_regression_range_witness:
  "example_model 0 = Inr (example_built 0)
   \<and> forward example_output_single example_transformer_forward (example_built 0) 0
       = Inr [[100 * sigmoid 2]]
   \<and> 0 \<le> 100 * sigmoid 2 \<and> 100 * sigmoid 2 \<le> 100"
proof -
  have c: "classification (example_args 0) = 0" by (simp add: example_args_def)
  from forward_regression_range [OF example_model_eq [of 0, unfolded example_model_def] c
      example_forward_0]
  show ?thesis using example_model_eq [of 0] example_forward_0 by simp
qed









subsection \<open>Trainable parameters and the optimizer\<close>

lemma mlps_trainable:
  assumes "FinetuneModel_init MVT cnn ck loaded rand args = Inr self"
  shows "filter requires_grad (concat (map layer_parameters (mlps self)))
           = concat (map layer_parameters (mlps self))"
proof -
  from init_Inr [OF assms] have "mlps self =
              [new_Linear (rand 0) (rand 1) (n_hidden args) (n_hidden args), ReLU]
              @ (if classification args \<noteq> 0
                 then [new_Linear (rand 2) (rand 3) (n_hidden args) 3]
                 else [new_Linear (rand 2) (rand 3) (n_hidden args) 1, Sigmoid])"
    by blast
  then show ?thesis by (simp add: new_Linear_parameters)
qed

lemma filter_concat_empty:
  "(\<forall>xs \<in> set xss. \<forall>x \<in> set xs. \<not> P x) \<Longrightarrow> filter P (concat xss) = []"
  by (induction xss) (simp_all add: filter_empty_conv)

text \<open>
  C9. After \<^verbatim>\<open>__init__\<close> with \<^verbatim>\<open>finetune_cnn\<close> false no parameter of the per-view
  networks requires a gradient; with \<^verbatim>\<open>finetune_transformer\<close> true the parameters of
  the transformer keep the flags they were constructed with; the optimizer receives
  exactly the parameters that require a gradient (with the per-view networks frozen:
  those of the transformer and the new layers).
\<close>

theorem frozen_and_trainable_parameters:
  assumes "FinetuneModel_init MultiViewTransformer cnn_multi_dim transformer_checkpoint loaded
             rand args = Inr self"
  shows "(finetune_cnn args = 0 \<longrightarrow>
            (\<forall>m \<in> set (cnn_models self). \<forall>p \<in> set (map snd (named_parameters m)).
               \<not> requires_grad p)
            \<and> filter requires_grad
                (concat (map (\<lambda>m. map snd (named_parameters m)) (cnn_models self))) = []
            \<and> param_group (configure_optimizers self)
                = filter requires_grad (map snd (named_parameters (transformer self)))
                  @ concat (map layer_parameters (mlps self)))
       \<and> (finetune_transformer args \<noteq> 0 \<longrightarrow>
            map (\<lambda>(k, p). (k, requires_grad p)) (named_parameters (transformer self))
              = map (\<lambda>(k, p). (k, requires_grad p)) (named_parameters (MultiViewTransformer args)))
       \<and> param_group (configure_optimizers self) = filter requires_grad (parameters self)
       \<and> (\<forall>p \<in> set (param_group (configure_optimizers self)). requires_grad p)"
proof -
  from init_Inr [OF assms] obtain tr cnns where
    tr: "load_state_dict (MultiViewTransformer args) transformer_checkpoint = Inr tr"
    and t: "transformer self = (if finetune_transformer args = 0 then disable_gradient tr else tr)"
    and c: "cnn_models self = (if finetune_cnn args = 0 then map disable_gradient cnns else cnns)"
    by blast
  have opt: "param_group (configure_optimizers self) = filter requires_grad (parameters self)"
    by (simp add: configure_optimizers_def)
  have frozen: "\<forall>m \<in> set (cnn_models self). \<forall>p \<in> set (map snd (named_parameters m)).
               \<not> requires_grad p" if "finetune_cnn args = 0"
    using that c disable_gradient_flags by auto
  have none: "filter requires_grad
                (concat (map (\<lambda>m. map snd (named_parameters m)) (cnn_models self))) = []"
    if "finetune_cnn args = 0"
    using frozen [OF that] by (intro filter_concat_empty) auto
  have group: "param_group (configure_optimizers self)
                = filter requires_grad (map snd (named_parameters (transformer self)))
                  @ concat (map layer_parameters (mlps self))" if "finetune_cnn args = 0"
    unfolding opt parameters_def filter_append none [OF that] mlps_trainable [OF assms]
    by simp
  have kept: "map (\<lambda>(k, p). (k, requires_grad p)) (named_parameters (transformer self))
              = map (\<lambda>(k, p). (k, requires_grad p)) (named_parameters (MultiViewTransformer args))"
    if "finetune_transformer args \<noteq> 0"
    using that t load_state_dict_flags [OF tr] by simp
  have all: "\<forall>p \<in> set (param_group (configure_optimizers self)). requires_grad p"
    unfolding opt by simp
  from frozen none group kept opt all show ?thesis by blast
qed


text \<open>
  The example model: the three per-view parameters are frozen, the parameter of the
  transformer is trainable.
\<close>

theorem frozen_and_trainable_parameters_witness:
  "example_model 0 = Inr (example_built 0)
   \<and> filter requires_grad
       (concat (map (\<lambda>m. map snd (named_parameters m)) (cnn_models (example_built 0)))) = []
   \<and> map (\<lambda>(k, p). (k, requires_grad p)) (named_parameters (transformer (example_built 0)))
       = [(''w'', True)]
   \<and> param_group (configure_optimizers (example_built 0))
       = filter requires_grad (map snd (named_parameters (transformer (example_built 0))))
         @ concat (map layer_parameters (mlps (example_built 0)))"
proof -
  have a: "finetune_cnn (example_args 0) = 0" and b: "finetune_transformer (example_args 0) \<noteq> 0"
    by (simp_all add: example_args_def)
  note T = frozen_and_trainable_parameters
    [OF example_model_eq [of 0, unfolded example_model_def]]
  from T a have B: "filter requires_grad
       (concat (map (\<lambda>m. map snd (named_parameters m)) (cnn_models (example_built 0)))) = []"
    by blast
  from T b have "map (\<lambda>(k, p). (k, requires_grad p)) (named_parameters (transformer (example_built 0)))
       = map (\<lambda>(k, p). (k, requires_grad p)) (named_parameters (example_module ''w''))"
    by blast
  then have D: "map (\<lambda>(k, p). (k, requires_grad p)) (named_parameters (transformer (example_built 0)))
       = [(''w'', True)]"
    by (simp add: example_module_def)
  from T a have F: "param_group (configure_optimizers (example_built 0))
       = filter requires_grad (map snd (named_parameters (transformer (example_built 0))))
         @ concat (map layer_parameters (mlps (example_built 0)))"
    by blast
  from example_model_eq [of 0] B D F show ?thesis by blast
qed

end
